theory Spec2Isabelle
  imports Main
begin

section \<open>JavaScript strings\<close>

text \<open>
  A JavaScript string is a sequence of UTF-16 code units; \<open>length\<close>, \<open>slice\<close>,
  \<open>includes\<close> and the regular expressions of the reviewers (none has the \<open>u\<close> flag)
  all work on code units. A code unit is modelled as an integer, and a string as the list
  of its code units. A string literal of the source is written \<open>js ''...''\<close>; a glyph
  outside ASCII is written as the list of its code units, and so are the line feed (10),
  the quotes (34, 39), the backslash (92) and the back quote (96).
\<close>

type_synonym jsstring = "int list"

definition js :: "string \<Rightarrow> jsstring" where
  "js s = map of_char s"

text \<open>\<open>\s\<close>, and what \<open>trim\<close> strips: WhiteSpace and LineTerminator of ECMAScript.\<close>

definition is_space :: "int \<Rightarrow> bool" where
  "is_space c \<longleftrightarrow>
     (9 \<le> c \<and> c \<le> 13) \<or> c = 32 \<or> c = 160 \<or> c = 0x1680 \<or> (0x2000 \<le> c \<and> c \<le> 0x200A) \<or>
     c = 0x2028 \<or> c = 0x2029 \<or> c = 0x202F \<or> c = 0x205F \<or> c = 0x3000 \<or> c = 0xFEFF"

text \<open>\<open>\w\<close>: \<open>[A-Za-z0-9_]\<close>.\<close>

definition is_word :: "int \<Rightarrow> bool" where
  "is_word c \<longleftrightarrow> (48 \<le> c \<and> c \<le> 57) \<or> (65 \<le> c \<and> c \<le> 90) \<or> c = 95 \<or> (97 \<le> c \<and> c \<le> 122)"

text \<open>\<open>.\<close> (no \<open>s\<close> flag): any code unit but a line terminator.\<close>

definition is_dot :: "int \<Rightarrow> bool" where
  "is_dot c \<longleftrightarrow> c \<noteq> 10 \<and> c \<noteq> 13 \<and> c \<noteq> 0x2028 \<and> c \<noteq> 0x2029"

definition is_upper :: "int \<Rightarrow> bool" where
  "is_upper c \<longleftrightarrow> 65 \<le> c \<and> c \<le> 90"

text \<open>
  Canonicalisation under the \<open>i\<close> flag, and \<open>toLowerCase\<close>, on the ASCII letters. The
  patterns with the \<open>i\<close> flag and the names the dispatchers compare with are ASCII, and no
  code unit outside ASCII is canonicalised to an ASCII one; the lower-casing of letters
  outside ASCII is left out.
\<close>

definition to_upper :: "int \<Rightarrow> int" where
  "to_upper c = (if 97 \<le> c \<and> c \<le> 122 then c - 32 else c)"

definition to_lower :: "int \<Rightarrow> int" where
  "to_lower c = (if 65 \<le> c \<and> c \<le> 90 then c + 32 else c)"

definition toLowerCase :: "jsstring \<Rightarrow> jsstring" where
  "toLowerCase s = map to_lower s"

definition trim :: "jsstring \<Rightarrow> jsstring" where
  "trim s = rev (dropWhile is_space (rev (dropWhile is_space s)))"

definition startsWith :: "jsstring \<Rightarrow> jsstring \<Rightarrow> bool" where
  "startsWith s w \<longleftrightarrow> take (length w) s = w"

text \<open>\<open>s.includes(w)\<close>.\<close>

fun includes_js :: "jsstring \<Rightarrow> jsstring \<Rightarrow> bool" where
  "includes_js [] w = (w = [])"
| "includes_js (c # cs) w = (take (length w) (c # cs) = w \<or> includes_js cs w)"

text \<open>\<open>s.split(sep)\<close> for a separator of one code unit: never an empty array.\<close>

fun split :: "int \<Rightarrow> jsstring \<Rightarrow> jsstring list" where
  "split sep [] = [[]]"
| "split sep (c # cs) =
     (if c = sep then [] # split sep cs
      else (case split sep cs of [] \<Rightarrow> [[c]] | l # ls \<Rightarrow> (c # l) # ls))"

text \<open>\<open>xs.join(sep)\<close>.\<close>

fun join :: "jsstring \<Rightarrow> jsstring list \<Rightarrow> jsstring" where
  "join sep [] = []"
| "join sep [x] = x"
| "join sep (x # y # ys) = x @ sep @ join sep (y # ys)"

text \<open>\<open>xs.slice(a, b)\<close> and \<open>s.slice(a, b)\<close> for \<open>0 \<le> a\<close>, \<open>0 \<le> b\<close>.\<close>

definition slice :: "nat \<Rightarrow> nat \<Rightarrow> 'a list \<Rightarrow> 'a list" where
  "slice a b xs = take (b - a) (drop a xs)"

section \<open>Regular expressions\<close>

text \<open>
  The patterns of the source use literals, character classes, \<open>\s \w \b ^ $\<close>, groups,
  alternation and the greedy quantifiers \<open>* + ?\<close>; none has the \<open>m\<close> flag, a
  backreference or a lookaround. A cursor is a position in the subject: the code unit
  before it (\<open>None\<close> at the start of the input) and the text after it. \<open>ends r q\<close>
  lists the cursors at which a match of \<open>r\<close> started at \<open>q\<close> can end, in the order in
  which the backtracking matcher of ECMAScript tries them.
\<close>

datatype rx =
    Lit jsstring
  | LitI jsstring
  | Cls "int \<Rightarrow> bool"
  | Seq rx rx
  | Alt rx rx
  | Star rx
  | Bol
  | Eol
  | WordB

type_synonym cursor = "int option \<times> jsstring"

definition Plus :: "rx \<Rightarrow> rx" where
  "Plus r = Seq r (Star r)"

definition Opt :: "rx \<Rightarrow> rx" where
  "Opt r = Alt r (Lit [])"

fun cat :: "rx list \<Rightarrow> rx" where
  "cat [] = Lit []"
| "cat [r] = r"
| "cat (r # rs) = Seq r (cat rs)"

fun alts :: "rx list \<Rightarrow> rx" where
  "alts [] = Cls (\<lambda>c. False)"
| "alts [r] = r"
| "alts (r # rs) = Alt r (alts rs)"

abbreviation L :: "string \<Rightarrow> rx" where
  "L s \<equiv> Lit (js s)"

definition one_of :: "string \<Rightarrow> rx" where
  "one_of s = Cls (\<lambda>c. c \<in> set (js s))"

definition none_of :: "string \<Rightarrow> rx" where
  "none_of s = Cls (\<lambda>c. c \<notin> set (js s))"

abbreviation sp :: rx where "sp \<equiv> Cls is_space"
abbreviation wd :: rx where "wd \<equiv> Cls is_word"
abbreviation dot :: rx where "dot \<equiv> Cls is_dot"

definition after_lit :: "int option \<Rightarrow> jsstring \<Rightarrow> int option" where
  "after_lit p w = (if w = [] then p else Some (last w))"

definition word_before :: "int option \<Rightarrow> bool" where
  "word_before p = (case p of None \<Rightarrow> False | Some c \<Rightarrow> is_word c)"

definition word_after :: "jsstring \<Rightarrow> bool" where
  "word_after t = (case t of [] \<Rightarrow> False | c # _ \<Rightarrow> is_word c)"

text \<open>
  A greedy star: one more iteration first, stopping last. An iteration that consumes
  nothing is not tried again (ECMAScript's RepeatMatcher rejects it), so the text after
  the cursor bounds the number of iterations.
\<close>

fun star_it :: "(cursor \<Rightarrow> cursor list) \<Rightarrow> nat \<Rightarrow> cursor \<Rightarrow> cursor list" where
  "star_it f 0 q = [q]"
| "star_it f (Suc n) q =
     concat (map (star_it f n) (filter (\<lambda>q'. length (snd q') < length (snd q)) (f q))) @ [q]"

fun ends :: "rx \<Rightarrow> cursor \<Rightarrow> cursor list" where
  "ends (Lit w) (p, t) =
     (if take (length w) t = w then [(after_lit p w, drop (length w) t)] else [])"
| "ends (LitI w) (p, t) =
     (if map to_upper (take (length w) t) = map to_upper w
      then [(after_lit p (take (length w) t), drop (length w) t)] else [])"
| "ends (Cls P) (p, t) = (case t of [] \<Rightarrow> [] | c # cs \<Rightarrow> if P c then [(Some c, cs)] else [])"
| "ends (Seq a b) q = concat (map (ends b) (ends a q))"
| "ends (Alt a b) q = ends a q @ ends b q"
| "ends (Star r) q = star_it (ends r) (length (snd q)) q"
| "ends Bol (p, t) = (if p = None then [(p, t)] else [])"
| "ends Eol (p, t) = (if t = [] then [(p, t)] else [])"
| "ends WordB (p, t) = (if word_before p \<noteq> word_after t then [(p, t)] else [])"

text \<open>Every position of the subject, from left to right.\<close>

fun cursors :: "int option \<Rightarrow> jsstring \<Rightarrow> cursor list" where
  "cursors p [] = [(p, [])]"
| "cursors p (c # cs) = (p, c # cs) # cursors (Some c) cs"

text \<open>\<open>r.test(s)\<close>: is there a match starting at some position.\<close>

definition rx_test :: "rx \<Rightarrow> jsstring \<Rightarrow> bool" where
  "rx_test r s = list_ex (\<lambda>q. ends r q \<noteq> []) (cursors None s)"


text \<open>\<open>['"]\<close> and \<open>[^'"]\<close>.\<close>

definition quote :: rx where
  "quote = Cls (\<lambda>c. c = 39 \<or> c = 34)"

definition not_quote :: rx where
  "not_quote = Cls (\<lambda>c. c \<noteq> 39 \<and> c \<noteq> 34)"

section \<open>Findings\<close>

text \<open>
  The objects the rules push: a critical issue \<open>{line, type, severity, message}\<close> (the
  Swift rules give no severity) and a suggestion \<open>{line, category, message, priority}\<close>
  (only the React rules give a priority).
\<close>

datatype js_error = TypeError | SyntaxError

datatype priority = high | medium | low

record issue =
  line :: nat
  type :: jsstring
  severity :: "jsstring option"
  message :: jsstring

record suggestion =
  sline :: nat
  category :: jsstring
  smessage :: jsstring
  priority :: "priority option"

definition crit :: "nat \<Rightarrow> jsstring \<Rightarrow> jsstring \<Rightarrow> issue" where
  "crit n t m = \<lparr>line = n, type = t, severity = Some (js ''critical''), message = m\<rparr>"

definition sugg :: "nat \<Rightarrow> jsstring \<Rightarrow> jsstring \<Rightarrow> priority option \<Rightarrow> suggestion" where
  "sugg n c m p = \<lparr>sline = n, category = c, smessage = m, priority = p\<rparr>"

text \<open>\<open>if (c) xs.push(x)\<close>, as the list of what is pushed.\<close>

definition push_if :: "bool \<Rightarrow> 'a \<Rightarrow> 'a list" where
  "push_if c x = (if c then [x] else [])"

text \<open>\<open>lines.forEach((line, idx) => ...)\<close>: the pushes of every line, in order.\<close>

definition forEach :: "(nat \<Rightarrow> 'a \<Rightarrow> 'b list) \<Rightarrow> 'a list \<Rightarrow> 'b list" where
  "forEach f xs = concat (map (\<lambda>(idx, x). f idx x) (enumerate 0 xs))"

section \<open>The Laravel reviewer: rules (scripts/laravel-reviewer.js)\<close>

text \<open>Comments and empty lines are skipped.\<close>

definition laravel_skips :: "jsstring \<Rightarrow> bool" where
  "laravel_skips trimmed \<longleftrightarrow>
     trimmed = [] \<or> startsWith trimmed (js ''//'') \<or> startsWith trimmed (js ''*'') \<or>
     startsWith trimmed (js ''/*'')"

definition laravel_suggestions_line :: "jsstring \<Rightarrow> jsstring list \<Rightarrow> nat \<Rightarrow> jsstring \<Rightarrow> suggestion list" where
  "laravel_suggestions_line content lines idx ln =
     (let lineNum = idx + 1; trimmed = trim ln in
      if laravel_skips trimmed then []
      else
        push_if (rx_test (cat [L ''DB::select'', Star sp, L ''('', Star sp, quote, L ''SELECT'']) ln \<and>
                 \<not> rx_test (cat [L ''DB::select'', Star sp, L ''('', Star sp, quote, L ''SELECT'',
                                  Star not_quote, L ''?'']) ln)
          (sugg lineNum ([0xD83D, 0xDCCA] @ js '' Database'')
             (js ''Consider using Query Builder or Eloquent instead of raw SQL for better maintainability'') None) @
        (if rx_test (cat [L ''function'', Plus sp, Plus wd, Star sp, L ''('', Star (none_of '')''),
                          L ''$id'', Star sp, one_of '',)'']) ln \<and>
            rx_test (L ''Controller'') content
         then (let nextLines = join [10] (slice idx (idx + 5) lines) in
               push_if (rx_test (cat [L ''::find'', Star sp, L ''('', Star sp, L ''$id'', Star sp, L '')'']) nextLines)
                 (sugg lineNum ([0xD83C, 0xDFAF] @ js '' Eloquent'')
                    (js ''Use route model binding instead of manual find($id) for cleaner code'') None))
         else []) @
        push_if (rx_test (cat [L ''$request->validate'', Star sp, L ''('', Star sp, L ''['']) ln \<and>
                 rx_test (L ''Controller'') content)
          (sugg lineNum ([0x2705] @ js '' Validation'')
             (js ''Consider using Form Request classes for complex validations to keep controllers thin'') None))"

definition laravel_checkBestPractices :: "jsstring \<Rightarrow> jsstring \<Rightarrow> suggestion list" where
  "laravel_checkBestPractices content filename =
     (let lines = split 10 content in forEach (laravel_suggestions_line content lines) lines)"

text \<open>Files that are not reviewed: vendor, cache, storage, Blade templates and tests.\<close>

definition laravel_excluded :: "jsstring \<Rightarrow> bool" where
  "laravel_excluded filename \<longleftrightarrow>
     rx_test (cat [WordB, alts [L ''vendor'', L ''node_modules'', L ''bootstrap/cache'', L ''storage''], WordB])
       filename \<or>
     rx_test (cat [L ''.blade.php'', Eol]) filename \<or>
     rx_test (cat [LitI (js ''/''), alts [Seq (LitI (js ''test'')) (Opt (LitI (js ''s''))), LitI (js ''Tests'')],
                   LitI (js ''/'')]) filename \<or>
     rx_test (Alt (cat [L ''_test.php'', Eol]) (cat [L ''Test.php'', Eol])) filename"

definition laravel_critical_line :: "nat \<Rightarrow> jsstring \<Rightarrow> issue list" where
  "laravel_critical_line idx ln =
     (let lineNum = idx + 1; trimmed = trim ln in
      if laravel_skips trimmed then []
      else
        push_if (rx_test (cat [WordB, alts [L ''dd'', L ''dump''], Star sp, L ''('']) ln)
          (crit lineNum ([0xD83D, 0xDD0D] @ js '' Debug Code'') (js ''Debug function dd() or dump() must be removed before merge'')) @
        push_if ((rx_test (cat [L ''DB::raw('', Star (none_of '')''), quote, Star not_quote, L ''$'']) ln \<or>
                  rx_test (cat [L ''->whereRaw('', Star (none_of '')''), quote, Star not_quote, L ''$'']) ln) \<and>
                 (rx_test (cat [quote, Star dot, L ''.'', Star dot, L ''$'']) ln \<or>
                  rx_test (cat [L ''$'', Star dot, L ''.'', Star dot, quote]) ln))
          (crit lineNum ([0xD83D, 0xDD12] @ js '' Security'')
             (js ''SQL injection risk: variable concatenated in raw query. Use parameter binding with ?'')) @
        push_if (rx_test (cat [L ''::create'', Star sp, L ''('', Star sp, L ''$request'', Star sp, L ''->'',
                               Star sp, L ''all'', Star sp, L ''('', Star sp, L '')'']) ln)
          (crit lineNum ([0xD83D, 0xDD12] @ js '' Security'')
             (js ''Mass assignment vulnerability: $request->all() allows any field. Use validated() or only()'')))"

definition laravel_analyzeCode :: "jsstring \<Rightarrow> jsstring \<Rightarrow> issue list \<times> suggestion list" where
  "laravel_analyzeCode content filename =
     (if laravel_excluded filename then ([], [])
      else (forEach laravel_critical_line (split 10 content),
            laravel_checkBestPractices content filename))"


section \<open>The Swift reviewer: rules (scripts/swift-reviewer.js)\<close>

definition swift_excluded :: "jsstring \<Rightarrow> bool" where
  "swift_excluded filename \<longleftrightarrow>
     rx_test (cat [WordB, alts [L ''Pods'', L ''Carthage'', L ''.build'', L ''DerivedData'', L ''fastlane''], WordB])
       filename \<or>
     rx_test (cat [L ''/'', alts [L ''Tests'', L ''UITests''], L ''/'']) filename"

definition swift_skips :: "jsstring \<Rightarrow> bool" where
  "swift_skips t \<longleftrightarrow> t = [] \<or> startsWith t (js ''//'')"

definition swift_issue :: "nat \<Rightarrow> jsstring \<Rightarrow> jsstring \<Rightarrow> issue" where
  "swift_issue n ty m = \<lparr>line = n, type = ty, severity = None, message = m\<rparr>"

definition swift_critical_line :: "nat \<Rightarrow> jsstring \<Rightarrow> issue list" where
  "swift_critical_line idx ln =
     (let n = idx + 1; t = trim ln in
      if swift_skips t then []
      else
        push_if (rx_test (cat [WordB, L ''try!'', WordB]) t)
          (swift_issue n ([0x26A0, 0xFE0F] @ js '' Force Try'') (js ''Avoid try! '' @ [0x2014] @ js '' handle errors with do/catch or try?'')) @
        push_if (rx_test (cat [WordB, L ''as!'', WordB]) t)
          (swift_issue n ([0x26A0, 0xFE0F] @ js '' Force Cast'') (js ''Avoid as! '' @ [0x2014] @ js '' use as? with safe handling'')))"

definition swift_suggestions_line :: "jsstring \<Rightarrow> jsstring list \<Rightarrow> nat \<Rightarrow> jsstring \<Rightarrow> suggestion list" where
  "swift_suggestions_line content lines idx ln =
     (let n = idx + 1; t = trim ln in
      if swift_skips t then []
      else
        push_if (rx_test (cat [wd, L ''!'', WordB]) t \<and> \<not> rx_test (L ''!='') t \<and>
                 \<not> rx_test (cat [Bol, L ''!'']) t)
          (sugg n (js ''Safety'') (js ''Avoid force unwrapping (!). Use if let/guard let or nil coalescing'') None) @
        (if rx_test (cat [L ''{'', Star sp, L ''['', Star dot, L '']'', Star sp, L ''in'']) t = False \<and>
            rx_test (cat [L ''{'', Star (none_of ''}''), L ''in'']) t
         then (let window = join [10] (slice (idx - 2) (min (length lines) (idx + 8)) lines) in
               push_if (rx_test (L ''self.'') window \<and>
                        \<not> rx_test (cat [L ''[weak'', Plus sp, L ''self]'']) window \<and>
                        rx_test (cat [L ''class'', Plus sp, Plus wd]) content)
                 (sugg n (js ''Memory'') (js ''Consider [weak self] in closures to avoid retain cycles'') None))
         else []) @
        push_if (rx_test (cat [WordB, L ''print'', Star sp, L ''('']) t)
          (sugg n (js ''Cleanliness'') (js ''Remove print() or gate behind DEBUG'') None) @
        push_if (rx_test (cat [WordB, alts [L ''TODO'', L ''FIXME''], WordB]) t)
          (sugg n (js ''Maintenance'') (js ''Address TODO/FIXME before merge'') None) @
        push_if (rx_test (cat [L ''.'', alts [L ''text'', L ''setNeedsLayout'', L ''reloadData'',
                                              L ''setNeedsDisplay''], WordB]) t \<and>
                 rx_test (L ''DispatchQueue.global'') (join [10] (slice (idx - 5) (idx + 1) lines)))
          (sugg n (js ''Concurrency'') (js ''UI updates must be on main thread (DispatchQueue.main.async)'') None))"

definition swift_analyzeCode :: "jsstring \<Rightarrow> jsstring \<Rightarrow> issue list \<times> suggestion list" where
  "swift_analyzeCode content filename =
     (if swift_excluded filename then ([], [])
      else (let lines = split 10 content in
            (forEach swift_critical_line lines, forEach (swift_suggestions_line content lines) lines)))"

section \<open>The React reviewer: rules (scripts/react-reviewer.js)\<close>

text \<open>
  What can throw in the rules is modelled with its failure: indexing the result of
  \<open>match\<close> when it is \<open>null\<close>, calling a method on the \<open>undefined\<close> that \<open>pop\<close>
  returns for an empty array, and constructing a \<open>RegExp\<close> from text.
\<close>

text \<open>
  \<open>s.match(/P(G)/)\<close> for a pattern that ends with its only group: \<open>null\<close>, or the
  text captured by the group in the leftmost match the backtracking matcher finds.
\<close>

definition match_group :: "rx \<Rightarrow> rx \<Rightarrow> jsstring \<Rightarrow> jsstring option" where
  "match_group P G s =
     (case find (\<lambda>q. ends (Seq P G) q \<noteq> []) (cursors None s) of
        None \<Rightarrow> None
      | Some q \<Rightarrow>
          (case find (\<lambda>q1. ends G q1 \<noteq> []) (ends P q) of
             None \<Rightarrow> None
           | Some q1 \<Rightarrow> Some (take (length (snd q1) - length (snd (hd (ends G q1)))) (snd q1))))"

text \<open>\<open>s.replace(r, rep)\<close> for a pattern without the \<open>g\<close> flag: the leftmost match.\<close>

fun replace_at :: "rx \<Rightarrow> jsstring \<Rightarrow> int option \<Rightarrow> jsstring \<Rightarrow> jsstring" where
  "replace_at r rep p [] = (case ends r (p, []) of [] \<Rightarrow> [] | _ # _ \<Rightarrow> rep)"
| "replace_at r rep p (c # cs) =
     (case ends r (p, c # cs) of
        [] \<Rightarrow> c # replace_at r rep (Some c) cs
      | (_, t') # _ \<Rightarrow> rep @ t')"

definition replace_first :: "rx \<Rightarrow> jsstring \<Rightarrow> jsstring \<Rightarrow> jsstring" where
  "replace_first r rep s = replace_at r rep None s"

text \<open>
  \<open>new RegExp(`\\b${varName}\\s*=`)\<close>. For a name of word characters the pattern text
  denotes the literal name between \<open>\b\<close> and \<open>\s*=\<close>. Pattern text is not parsed here:
  any other name is counted as a SyntaxError, the worst it could be.
\<close>

definition regexp_of_name :: "jsstring \<Rightarrow> js_error + rx" where
  "regexp_of_name varName =
     (if list_all is_word varName then Inr (cat [WordB, Lit varName, Star sp, L ''=''])
      else Inl SyntaxError)"

definition react_skips :: "jsstring \<Rightarrow> bool" where
  "react_skips trimmed \<longleftrightarrow>
     trimmed = [] \<or> rx_test (cat [Bol, alts [L ''//'', L ''/*'', L ''*'']]) trimmed"

text \<open>Rule 13 of \<open>checkBestPractices\<close>, the one that reads a capture.\<close>

definition react_prefer_const :: "jsstring list \<Rightarrow> nat \<Rightarrow> jsstring \<Rightarrow> js_error + suggestion list" where
  "react_prefer_const lines idx ln =
     (if rx_test (cat [Bol, Star sp, L ''let'', Plus sp, Plus wd, Star sp, L ''='']) ln
      then (case match_group (cat [L ''let'', Plus sp]) (Plus wd) ln of
              None \<Rightarrow> Inl TypeError
            | Some varName \<Rightarrow>
                (let scopeContent = join [10] (slice idx (idx + 30) lines) in
                 case regexp_of_name varName of
                   Inl e \<Rightarrow> Inl e
                 | Inr r \<Rightarrow>
                     Inr (push_if (\<not> rx_test r (drop (length ln) scopeContent))
                            (sugg (idx + 1) ([0xD83C, 0xDFAF] @ js '' Modern JS'')
                               ((js ''Variable '' @ [39]) @ varName @
                                ([39] @ js '' is never reassigned. Use '' @ [39] @ js ''const'' @ [39] @
            js '' instead of '' @ [39] @ js ''let'' @ [39]))
                               (Some low)))))
      else Inr [])"

definition react_suggestions_before :: "jsstring list \<Rightarrow> nat \<Rightarrow> jsstring \<Rightarrow> jsstring \<Rightarrow> suggestion list" where
  "react_suggestions_before lines idx ln trimmed =
     (let lineNum = idx + 1 in
        push_if (rx_test (cat [L ''class'', Plus sp, Plus wd, Plus sp, L ''extends'', Plus sp,
                               Opt (L ''React.''), L ''Component'']) ln)
          (sugg lineNum ([0x269B, 0xFE0F] @ js '' Modern React'')
             (js ''Consider using functional components with hooks instead of class components (React 16.8+)'')
             (Some high)) @
        (if rx_test (cat [L ''useEffect'', Star sp, L ''('', Star sp, L ''('', Star sp, L '')'', Star sp, L ''=>'']) ln
         then (let effectContent = join [10] (slice idx (idx + 15) lines) in
               push_if (\<not> rx_test (cat [L ''}'', Star sp, L '','', Star sp, L ''['']) effectContent)
                 (sugg lineNum ([0xD83E, 0xDE9D] @ js '' Hooks'')
                    (js ''useEffect without dependency array runs on every render. Add [] for mount-only or specify dependencies'')
                    (Some high)))
         else []) @
        push_if (rx_test (cat [alts [L ''onClick'', L ''onChange'', L ''onSubmit'',
                                     cat [L ''on'', Cls is_upper, Star wd]],
                               Star sp, L ''='', Star sp, L ''{'',
                               alts [L ''()'', cat [Star dot, L ''=>'']]]) ln)
          (sugg lineNum ([0x26A1] @ js '' Performance'')
             (js ''Inline function creates new reference on each render. Use useCallback or extract to stable reference'')
             (Some medium)) @
        (if rx_test (cat [L ''.map'', Star sp, L ''('']) ln
         then (let mapContent = join [10] (slice idx (idx + 5) lines) in
               push_if (rx_test (cat [L ''<'', Cls is_upper]) mapContent \<and>
                        \<not> rx_test (cat [L ''key'', Star sp, L ''='']) mapContent)
                 (sugg lineNum ([0x269B, 0xFE0F] @ js '' React'')
                    (js ''Missing key prop in list. Add unique key to help React identify items'') (Some high)))
         else []) @
        push_if (rx_test (cat [L ''key'', Star sp, L ''='', Star sp, L ''{'', Star dot, L ''index}'']) ln)
          (sugg lineNum ([0x269B, 0xFE0F] @ js '' React'')
             (js ''Avoid using array index as key. Use unique ID if items can be reordered or filtered'')
             (Some medium)) @
        push_if (rx_test (cat [L ''console.'', alts [L ''log'', L ''debug'', L ''info''], Star sp, L ''('']) ln)
          (sugg lineNum ([0xD83E, 0xDDF9] @ js '' Code Quality'')
             (js ''Remove console.log before production. Use proper logging library or remove debug statements'')
             (Some medium)) @
        (if rx_test (L ''useEffect'') ln
         then (let effectContent = join [10] (slice idx (idx + 20) lines) in
               if rx_test (cat [alts [L ''fetch'', L ''axios'', L ''setTimeout'', L ''setInterval'', L ''subscribe''],
                                Star sp, L ''('']) effectContent
               then push_if (\<not> rx_test (cat [L ''return'', Star sp, L ''('', Star sp, L '')'', Star sp, L ''=>''])
                                  effectContent \<and>
                             \<not> rx_test (cat [L ''return'', Plus sp, L ''function'']) effectContent)
                      (sugg lineNum ([0xD83D, 0xDC1B] @ js '' Memory Leaks'')
                         (js ''useEffect with async operations should return cleanup function to prevent memory leaks'')
                         (Some high))
               else [])
         else []) @
        push_if (rx_test (cat [Plus wd, Star sp, L ''&&'', Star sp, Plus wd, L ''.'', Plus wd]) ln \<and>
                 \<not> startsWith trimmed (js ''//''))
          (sugg lineNum ([0xD83C, 0xDFAF] @ js '' Modern JS'')
             (js ''Use optional chaining (?.) instead of && for safer property access'') (Some low)) @
        (if rx_test (cat [L ''fetch'', Star sp, L ''('']) ln \<or>
            rx_test (cat [L ''axios.'', Plus wd, Star sp, L ''('']) ln
         then (let fetchContext = join [10] (slice idx (idx + 10) lines) in
               push_if (\<not> rx_test (Alt (L ''catch'') (L ''try'')) fetchContext)
                 (sugg lineNum ([0xD83D, 0xDC1B] @ js '' Error Handling'')
                    (js ''API call without error handling. Add try-catch or .catch() to handle failures'')
                    (Some high)))
         else []) @
        push_if (rx_test (cat [alts [L ''.filter'', L ''.map'', L ''.reduce'', L ''.sort''], Star sp, L ''('',
                               Star dot, L '')'', Star sp, L ''.'', Star sp,
                               alts [L ''filter'', L ''map'', L ''reduce'', L ''sort'']]) ln)
          (sugg lineNum ([0x26A1] @ js '' Performance'')
             (js ''Chained array operations in render. Consider using useMemo to cache computed values'')
             (Some medium)) @
        (if rx_test (cat [L ''import'', Plus sp, Plus wd, Plus sp, L ''from'', Plus sp, quote, Star dot, L ''/'',
                          alts [L ''pages'', L ''routes'', L ''views''], L ''/'']) ln
         then push_if (\<not> rx_test (Alt (L ''React.lazy'') (L ''lazy('')) ln)
                (sugg lineNum ([0x26A1] @ js '' Performance'')
                   (js ''Consider lazy loading route components with React.lazy() to reduce initial bundle size'')
                   (Some medium))
         else []) @
        push_if (rx_test (cat [L ''<img'', sp]) ln \<and> \<not> rx_test (cat [L ''alt'', Star sp, L ''='']) ln)
          (sugg lineNum ([0x267F] @ js '' Accessibility'')
             (js ''Images must have alt text for accessibility. Add descriptive alt attribute'') (Some high)))"

definition react_suggestions_after :: "jsstring list \<Rightarrow> nat \<Rightarrow> jsstring \<Rightarrow> suggestion list" where
  "react_suggestions_after lines idx ln =
     (let lineNum = idx + 1 in
        push_if (rx_test (cat [L ''<div'', Plus sp, alts [L ''onClick'', cat [L ''role='', quote, L ''button'']]]) ln)
          (sugg lineNum ([0x267F] @ js '' Accessibility'')
             (js ''Use semantic HTML <button> instead of <div> with onClick for better accessibility'')
             (Some medium)) @
        (if rx_test (L ''<form'') ln \<and> \<not> rx_test (L ''onSubmit'') ln
         then (let formContent = join [10] (slice idx (idx + 5) lines) in
               push_if (\<not> rx_test (L ''onSubmit'') formContent)
                 (sugg lineNum ([0xD83D, 0xDC1B] @ js '' Forms'')
                    (js ''Form without onSubmit handler. Add handler and preventDefault() to control submission'')
                    (Some medium)))
         else []))"

text \<open>The pushes of one line: rules 1 to 12, rule 13, rules 14 and 15.\<close>

definition react_suggestions_line :: "jsstring list \<Rightarrow> nat \<Rightarrow> jsstring \<Rightarrow> js_error + suggestion list" where
  "react_suggestions_line lines idx ln =
     (let trimmed = trim ln in
      if react_skips trimmed then Inr []
      else (case react_prefer_const lines idx ln of
              Inl e \<Rightarrow> Inl e
            | Inr s13 \<Rightarrow>
                Inr (react_suggestions_before lines idx ln trimmed @ s13 @
                     react_suggestions_after lines idx ln)))"

text \<open>A \<open>forEach\<close> whose callback can throw: the first exception ends it.\<close>

fun forEach_try :: "(nat \<Rightarrow> 'a \<Rightarrow> js_error + 'b list) \<Rightarrow> (nat \<times> 'a) list \<Rightarrow> js_error + 'b list" where
  "forEach_try f [] = Inr []"
| "forEach_try f ((idx, x) # xs) =
     (case f idx x of
        Inl e \<Rightarrow> Inl e
      | Inr ys \<Rightarrow> (case forEach_try f xs of Inl e \<Rightarrow> Inl e | Inr zs \<Rightarrow> Inr (ys @ zs)))"

text \<open>\<open>xs.pop()\<close>: \<open>undefined\<close> for the empty array.\<close>

definition pop :: "'a list \<Rightarrow> 'a option" where
  "pop xs = (if xs = [] then None else Some (last xs))"

definition react_checkBestPractices :: "jsstring \<Rightarrow> jsstring \<Rightarrow> js_error + suggestion list" where
  "react_checkBestPractices content filename =
     (let lines = split 10 content;
          isTypeScript = rx_test (cat [L ''.ts'', Opt (L ''x''), Eol]) filename
      in case pop (split 47 filename) of
           None \<Rightarrow> Inl TypeError
         | Some base \<Rightarrow>
             (let isComponent =
                    rx_test (cat [Bol, Cls is_upper])
                      (replace_first
                         (cat [L ''.'', alts [cat [L ''js'', Opt (L ''x'')], cat [L ''ts'', Opt (L ''x'')]], Eol])
                         [] base)
              in forEach_try (react_suggestions_line lines) (enumerate 0 lines)))"

definition react_excluded :: "jsstring \<Rightarrow> bool" where
  "react_excluded filename \<longleftrightarrow>
     rx_test (alts [L ''node_modules'', L ''dist'', L ''build'', L ''coverage'', L ''.min.js'']) filename \<or>
     rx_test (cat [L ''.'', alts [L ''test'', L ''spec''], L ''.'',
                   alts [cat [L ''js'', Opt (L ''x'')], cat [L ''ts'', Opt (L ''x'')]], Eol]) filename"

definition react_critical_line :: "jsstring list \<Rightarrow> nat \<Rightarrow> jsstring \<Rightarrow> issue list" where
  "react_critical_line lines idx ln =
     (let lineNum = idx + 1; trimmed = trim ln in
      if react_skips trimmed then []
      else
        push_if (rx_test (L ''dangerouslySetInnerHTML'') ln)
          (crit lineNum ([0xD83D, 0xDD12] @ js '' Security'')
             (js ''XSS risk: dangerouslySetInnerHTML can inject malicious scripts. Sanitize HTML with DOMPurify'')) @
        push_if (rx_test (cat [L ''document.'', alts [L ''getElementById'', L ''querySelector'', L ''getElementsBy'']]) ln)
          (crit lineNum ([0x269B, 0xFE0F] @ js '' React'')
             (js ''Avoid direct DOM manipulation in React. Use refs (useRef) or state instead'')) @
        (if rx_test (cat [L ''useEffect'', Star sp, L ''('']) ln
         then (let effectContent = join [10] (slice idx (idx + 15) lines) in
               push_if (rx_test (cat [L ''set'', Cls is_upper, Star wd, Star sp, L ''('']) effectContent \<and>
                        \<not> rx_test (cat [L '']'', Star sp, L '')'']) effectContent)
                 (crit lineNum ([0xD83D, 0xDC1B] @ js '' Infinite Loop'')
                    (js ''Potential infinite loop: useEffect updates state without dependency array'')))
         else []) @
        (if rx_test (Alt (L ''setTimeout'') (L ''setInterval'')) ln
         then (let context = join [10] (slice (idx - 10) (idx + 10) lines) in
               push_if (rx_test (L ''useEffect'') context \<and>
                        \<not> rx_test (Alt (L ''clearTimeout'') (L ''clearInterval'')) context)
                 (crit lineNum ([0xD83D, 0xDCA7] @ js '' Memory Leak'')
                    (js ''Timer without cleanup. Return cleanup function: () => clearTimeout(id)'')))
         else []) @
        push_if (rx_test (cat [L ''useEffect'', Star sp, L ''('', Star sp, L ''async'']) ln)
          (crit lineNum ([0xD83D, 0xDC1B] @ js '' Hook Error'')
             (js ''useEffect cannot be async directly. Create async function inside and call it'')) @
        push_if (rx_test (cat [L ''props.'', Plus wd, Star sp, L ''='']) ln)
          (crit lineNum ([0x269B, 0xFE0F] @ js '' React'') (js ''Props are read-only. Never mutate props directly'')) @
        push_if (rx_test (cat [WordB, L ''eval'', Star sp, L ''('']) ln)
          (crit lineNum ([0xD83D, 0xDD12] @ js '' Security'')
             (js ''eval() is dangerous and can execute malicious code. Find alternative approach'')) @
        push_if (rx_test (cat [Alt (L ''onClick'') (L ''onChange''), Star sp, L ''='', Star sp, L ''{'',
                               Star (none_of ''}''), L ''.bind(this'']) ln)
          (crit lineNum ([0x26A1] @ js '' Performance'')
             (js ''.bind() in render creates new function each time. Move to constructor or use arrow functions'')) @
        (if rx_test (cat [WordB, alts [L ''useState'', L ''useEffect'', L ''useCallback'', L ''useMemo'',
                                       L ''useRef'', L ''useContext''], Star sp, L ''('']) ln
         then (let prevLines = join [10] (slice (idx - 5) idx lines) in
               push_if (rx_test (Alt (cat [WordB, L ''if'', Star sp, L ''('']) (cat [L ''?'', Star sp, L ''(''])) prevLines)
                 (crit lineNum ([0xD83E, 0xDE9D] @ js '' Hooks'')
                    (js ''Hooks cannot be called conditionally. Call hooks at top level of component'')))
         else []) @
        push_if (rx_test (cat [WordB, L ''state.'', Plus wd, Star sp, L ''='']) ln \<or>
                 rx_test (cat [L ''this.state.'', Plus wd, Star sp, L ''='']) ln)
          (crit lineNum ([0x269B, 0xFE0F] @ js '' React'') (js ''Never mutate state directly. Use setState or state setter function'')))"

definition react_analyzeCode :: "jsstring \<Rightarrow> jsstring \<Rightarrow> js_error + issue list \<times> suggestion list" where
  "react_analyzeCode content filename =
     (if react_excluded filename then Inr ([], [])
      else (let lines = split 10 content;
                critical = forEach (react_critical_line lines) lines
            in case react_checkBestPractices content filename of
                 Inl e \<Rightarrow> Inl e
               | Inr suggestions \<Rightarrow> Inr (critical, suggestions)))"


section \<open>Collaborators and configuration\<close>

text \<open>
  One entry of \<open>octokit.pulls.listFiles\<close>; \<open>patch\<close> is absent for a binary file.
\<close>

record changed_file =
  filename :: jsstring
  status :: jsstring
  patch :: "jsstring option"
  additions :: nat
  deletions :: nat

text \<open>
  What the completion endpoint can answer: \<open>fetch\<close> throws, or there is a response
  with its \<open>ok\<close> flag and a body that \<open>response.json()\<close> cannot read
  (\<open>Unreadable\<close>), that has no \<open>choices\<close> array (\<open>NoChoices\<close>: reading
  \<open>data.choices[0]\<close> throws), whose first choice has no content (\<open>NoContent\<close>),
  or that carries a content string.
\<close>

datatype payload = Unreadable | NoChoices | NoContent | Content jsstring

datatype ai_response = FetchError | Response bool payload

text \<open>
  The collaborators of one run. A request that throws is \<open>None\<close>. \<open>getContent\<close> stands
  for \<open>octokit.repos.getContent\<close> followed by the base64 decoding, at the commit under
  review. \<open>completion\<close> takes the part of the system message that varies (the context of
  a question; the persona text of each script is a constant) and the user message.
\<close>

record env =
  listFiles :: "changed_file list option"
  getContent :: "jsstring \<Rightarrow> jsstring option"
  completion :: "jsstring \<Rightarrow> jsstring \<Rightarrow> ai_response"
  pull :: "(jsstring \<times> jsstring option) option"

text \<open>The constants every script reads from the environment when it is loaded.\<close>

record config =
  GROQ_API_KEY :: "jsstring option"
  PR_NUMBER :: "nat option"
  COMMENT_BODY :: jsstring

definition truthy :: "jsstring option \<Rightarrow> bool" where
  "truthy v \<longleftrightarrow> (case v of None \<Rightarrow> False | Some s \<Rightarrow> s \<noteq> [])"

text \<open>\<open>callGroqAI\<close>: every failure is \<open>null\<close>, and so is an empty content.\<close>

definition callGroqAI :: "config \<Rightarrow> env \<Rightarrow> jsstring \<Rightarrow> jsstring option" where
  "callGroqAI cfg e prompt =
     (if \<not> truthy (GROQ_API_KEY cfg) then None
      else (case completion e [] prompt of
              FetchError \<Rightarrow> None
            | Response ok body \<Rightarrow>
                if \<not> ok then None
                else (case body of
                        Content c \<Rightarrow> if c = [] then None else Some c
                      | _ \<Rightarrow> None)))"

section \<open>The review of a pull request\<close>

text \<open>
  What a run asks of its collaborators, in order: the content of a listed file, the rules
  run on it, a completion for it (with the prompt), a completion for a question (with the
  context and the question), and a comment to post (with its body). A request is
  recorded when it is made, whether it succeeds or not.
\<close>

datatype event =
    Fetched changed_file
  | Analysed changed_file
  | Asked changed_file jsstring
  | Queried jsstring jsstring
  | Posted jsstring

record run =
  exitCode :: nat
  events :: "event list"

text \<open>The three accumulators of \<open>reviewPR\<close>.\<close>

record report =
  allCritical :: "(jsstring \<times> issue list) list"
  allSuggestions :: "(jsstring \<times> suggestion list) list"
  aiReviews :: "(jsstring \<times> jsstring) list"

definition no_report :: report where
  "no_report = \<lparr>allCritical = [], allSuggestions = [], aiReviews = []\<rparr>"

text \<open>\<open>allCritical.reduce((sum, f) => sum + f.issues.length, 0)\<close>.\<close>

definition totalCritical :: "report \<Rightarrow> nat" where
  "totalCritical rep = foldl (\<lambda>sum f. sum + length (snd f)) 0 (allCritical rep)"

text \<open>
  \<open>reviewPR\<close>, \<open>getPRDiff\<close> and the per-file loop are the same text in the three
  reviewer scripts up to what this record holds: the file names \<open>getPRDiff\<close> keeps, the
  number of files reviewed, the rules, the length of the patch preview, the prompt, the
  test for a reply without findings, and the comment.
\<close>

record reviewer =
  accepts :: "jsstring \<Rightarrow> bool"
  cap :: nat
  analyzeCode :: "jsstring \<Rightarrow> jsstring \<Rightarrow> js_error + issue list \<times> suggestion list"
  preview :: nat
  prompt_of :: "jsstring \<Rightarrow> jsstring \<Rightarrow> jsstring"
  no_findings :: "jsstring \<Rightarrow> bool"
  render :: "report \<Rightarrow> jsstring"

text \<open>\<open>getPRDiff\<close> / \<open>getPRFiles\<close>: a failed listing is logged and gives no file.\<close>

definition getPRDiff :: "reviewer \<Rightarrow> env \<Rightarrow> changed_file list" where
  "getPRDiff rv e =
     (case listFiles e of
        None \<Rightarrow> []
      | Some files \<Rightarrow> filter (\<lambda>f. accepts rv (filename f) \<and> status f \<noteq> js ''removed'') files)"

text \<open>
  The body of the loop for one file. The \<open>try\<close> covers the whole body: an exception from
  the content request or from the rules is logged and the loop goes on; both come before
  the first push.
\<close>

definition review_file :: "reviewer \<Rightarrow> config \<Rightarrow> env \<Rightarrow> changed_file \<Rightarrow> report \<times> event list \<Rightarrow> report \<times> event list" where
  "review_file rv cfg e f st =
     (case st of (rep, tr) \<Rightarrow>
        (case getContent e (filename f) of
           None \<Rightarrow> (rep, tr @ [Fetched f])
         | Some content \<Rightarrow>
             (case analyzeCode rv content (filename f) of
                Inl err \<Rightarrow> (rep, tr @ [Fetched f, Analysed f])
              | Inr (critical, suggestions) \<Rightarrow>
                  (let rep1 = rep\<lparr>allCritical := allCritical rep @ push_if (critical \<noteq> []) (filename f, critical),
                                    allSuggestions := allSuggestions rep @
                                                      push_if (suggestions \<noteq> []) (filename f, suggestions)\<rparr>
                   in case patch f of
                        None \<Rightarrow> (rep1, tr @ [Fetched f, Analysed f])
                      | Some p \<Rightarrow>
                          if truthy (GROQ_API_KEY cfg) \<and> p \<noteq> [] \<and> length p > 50
                          then (let patchPreview = slice 0 (preview rv) p;
                                    prompt = prompt_of rv (filename f) patchPreview;
                                    aiReview = callGroqAI cfg e prompt
                                in (rep1\<lparr>aiReviews := aiReviews rep1 @
                                         (case aiReview of
                                            None \<Rightarrow> []
                                          | Some r \<Rightarrow> push_if (\<not> no_findings rv r) (filename f, r))\<rparr>,
                                    tr @ [Fetched f, Analysed f, Asked f prompt]))
                          else (rep1, tr @ [Fetched f, Analysed f])))))"

definition review_files :: "reviewer \<Rightarrow> config \<Rightarrow> env \<Rightarrow> changed_file list \<Rightarrow> report \<times> event list" where
  "review_files rv cfg e files = foldl (\<lambda>st f. review_file rv cfg e f st) (no_report, []) files"

text \<open>
  The function \<open>reviewPR\<close>, called once the script is loaded: \<open>process.exitCode\<close>
  is set to 1 when \<open>hasCritical\<close> holds and is left at 0 otherwise. What comes before
  the call, the loading of the constants, can end the process; it is part of
  \<open>reviewer_process\<close> below.
\<close>

definition reviewPR :: "reviewer \<Rightarrow> config \<Rightarrow> env \<Rightarrow> run" where
  "reviewPR rv cfg e =
     (if PR_NUMBER cfg = None \<or> PR_NUMBER cfg = Some 0 then \<lparr>exitCode = 0, events = []\<rparr>
      else (let files = getPRDiff rv e in
            if length files = 0 then \<lparr>exitCode = 0, events = []\<rparr>
            else (case review_files rv cfg e (slice 0 (cap rv) files) of
                    (rep, tr) \<Rightarrow>
                      (let hasCritical = length (allCritical rep) > 0;
                           comment = render rv rep
                       in \<lparr>exitCode = (if hasCritical then 1 else 0), events = tr @ [Posted comment]\<rparr>))))"

text \<open>The files the loop of a run goes over, and the report the run aggregates.\<close>

definition reviewed :: "reviewer \<Rightarrow> config \<Rightarrow> env \<Rightarrow> changed_file list" where
  "reviewed rv cfg e =
     (if PR_NUMBER cfg = None \<or> PR_NUMBER cfg = Some 0 then [] else slice 0 (cap rv) (getPRDiff rv e))"

definition aggregate :: "reviewer \<Rightarrow> config \<Rightarrow> env \<Rightarrow> report" where
  "aggregate rv cfg e = fst (review_files rv cfg e (reviewed rv cfg e))"

section \<open>The comments\<close>

text \<open>A number in a template literal: its decimal digits.\<close>

fun dec :: "nat \<Rightarrow> jsstring" where
  "dec n = (if n < 10 then [48 + int n] else dec (n div 10) @ [48 + int (n mod 10)])"

declare dec.simps [simp del]

definition ai_section :: "(jsstring \<times> jsstring) list \<Rightarrow> jsstring" where
  "ai_section reviews =
     (if length reviews > 0
      then (js ''### '' @ [0xD83E, 0xDDE0] @ js '' AI Deep Analysis'' @ [10, 10]) @
           concat (map (\<lambda>(file, review).
                     (js ''<details><summary>'' @ [0xD83D, 0xDCC4] @ js '' '') @ file @ (js ''</summary>'' @ [10, 10]) @ review @
                     ([10, 10] @ js ''</details>'' @ [10, 10])) reviews)
      else [])"

subsection \<open>scripts/laravel-reviewer.js\<close>

definition laravel_render :: "report \<Rightarrow> jsstring" where
  "laravel_render rep =
     (js ''## '' @ [0xD83E, 0xDD16] @ js '' Laravel Security Review'' @ [10, 10]) @
     (if length (allCritical rep) > 0
      then ([0x26D4] @ js '' **Found '') @ dec (totalCritical rep) @
           (js '' CRITICAL issue(s) that must be fixed before merge**'' @ [10, 10])
      else []) @
     (if length (allCritical rep) > 0
      then (js ''### '' @ [0x26D4] @ js '' Critical Issues'' @ [10, 10]) @
           concat (map (\<lambda>(file, issues).
                     (js ''#### '' @ [0xD83D, 0xDCC4] @ js '' '') @ file @ [10] @
                     concat (map (\<lambda>issue. (js ''- **Line '') @ dec (line issue) @ (js ''**: '') @ message issue @ [10]) issues) @
                     [10]) (allCritical rep))
      else []) @
     ai_section (aiReviews rep) @
     (if length (allCritical rep) = 0 \<and> length (aiReviews rep) = 0
      then ([0x2705] @ js '' **No security or critical issues detected**'' @ [10, 10]) @
           (js ''Code review passed automated checks.'' @ [10, 10])
      else []) @
     ([10] @ js ''---'' @ [10] @ js ''*'' @ [0xD83D, 0xDCAC] @ js '' Ask questions with '' @ [96] @
     js ''@ai-reviewer [your question]'' @ [96] @ js '' in comments*'')"

definition laravel_accepts :: "jsstring \<Rightarrow> bool" where
  "laravel_accepts name \<longleftrightarrow>
     rx_test (cat [L ''.php'', Eol]) name \<and> \<not> includes_js name (js ''vendor/'') \<and>
     \<not> includes_js name (js ''node_modules/'')"

definition laravel_prompt :: "jsstring \<Rightarrow> jsstring \<Rightarrow> jsstring" where
  "laravel_prompt name patchPreview =
     (js ''File: '') @ name @ ([10, 10] @ js ''Code changes:'' @ [10, 96, 96, 96] @ js ''diff'' @ [10]) @ patchPreview @
     ([10, 96, 96, 96, 10, 10] @
     js ''Review ONLY the changed lines above. Report only if you are 100% certain of a critical security or correctness bug.'')"

text \<open>\<open>aiReview.includes('None') || aiReview.includes('No issues')\<close>.\<close>

definition none_or_no_issues :: "jsstring \<Rightarrow> bool" where
  "none_or_no_issues r \<longleftrightarrow> includes_js r (js ''None'') \<or> includes_js r (js ''No issues'')"

definition laravel :: reviewer where
  "laravel = \<lparr>accepts = laravel_accepts, cap = 8,
              analyzeCode = (\<lambda>content name. Inr (laravel_analyzeCode content name)),
              preview = 3000, prompt_of = laravel_prompt, no_findings = none_or_no_issues,
              render = laravel_render\<rparr>"

subsection \<open>scripts/swift-reviewer.js\<close>

definition critical_section :: "(jsstring \<times> issue list) list \<Rightarrow> jsstring" where
  "critical_section crits =
     (if length crits > 0
      then (js ''### '' @ [0x26D4] @ js '' Critical Issues'' @ [10, 10]) @
           concat (map (\<lambda>(file, issues).
                     (js ''#### '' @ [0xD83D, 0xDCC4] @ js '' '') @ file @ [10] @
                     concat (map (\<lambda>i. (js ''- **Line '') @ dec (line i) @ (js ''** ['') @ type i @ (js '']: '') @
                                        message i @ [10]) issues) @
                     [10]) crits)
      else [])"

definition swift_render :: "report \<Rightarrow> jsstring" where
  "swift_render rep =
     (js ''## '' @ [0xD83C, 0xDF4E] @ js '' Swift/iOS Code Review'' @ [10, 10]) @
     (if length (allCritical rep) > 0
      then ([0x26D4] @ js '' **Found '') @ dec (totalCritical rep) @ (js '' CRITICAL issue(s) that must be fixed**'' @ [10, 10])
      else []) @
     critical_section (allCritical rep) @
     ai_section (aiReviews rep) @
     (if length (allSuggestions rep) > 0
      then (js ''### '' @ [0xD83D, 0xDCA1] @ js '' Suggestions'' @ [10, 10]) @
           concat (map (\<lambda>(file, suggestions).
                     concat (map (\<lambda>s. (js ''- **'') @ file @ (js '':'') @ dec (sline s) @ (js ''** - '') @ category s @ (js '': '') @
                                        smessage s @ [10]) suggestions)) (allSuggestions rep)) @
           [10]
      else []) @
     (if \<not> length (allCritical rep) > 0 \<and> length (aiReviews rep) = 0
      then ([0x2705] @ js '' **No critical issues detected**'' @ [10, 10])
      else []) @
     (js ''---'' @ [10] @ js ''*'' @ [0xD83D, 0xDCAC] @ js '' Ask questions with '' @ [96] @
     js ''@ai-reviewer [your question]'' @ [96] @ js ''*'')"

definition swift_accepts :: "jsstring \<Rightarrow> bool" where
  "swift_accepts name \<longleftrightarrow>
     rx_test (cat [L ''.swift'', Eol]) name \<and> \<not> rx_test (L ''Pods/'') name \<and>
     \<not> rx_test (L ''Carthage/'') name \<and> \<not> rx_test (L ''.build/'') name \<and>
     \<not> rx_test (L ''DerivedData/'') name"

definition swift_prompt :: "jsstring \<Rightarrow> jsstring \<Rightarrow> jsstring" where
  "swift_prompt name patchPreview =
     (js ''File: '') @ name @ ([10, 10] @ js ''Changed lines:'' @ [10, 96, 96, 96] @ js ''diff'' @ [10]) @ patchPreview @
     ([10, 96, 96, 96, 10, 10] @
     js ''Review only the diff above. Report definite issues (safety, memory, concurrency).'')"

definition swift :: reviewer where
  "swift = \<lparr>accepts = swift_accepts, cap = 10,
            analyzeCode = (\<lambda>content name. Inr (swift_analyzeCode content name)),
            preview = 3000, prompt_of = swift_prompt,
            no_findings = rx_test (LitI (js ''None'')),
            render = swift_render\<rparr>"

subsection \<open>scripts/react-reviewer.js\<close>

text \<open>
  \<open>categorizedSuggestions\<close>: an object used as a dictionary from category to items, in
  the order in which the categories were first seen (the categories of the rules are
  neither array indices nor names of \<open>Object.prototype\<close>). An item is
  \<open>{file, line, message, priority}\<close>, the priority \<open>medium\<close> when the rule gave none.
\<close>

type_synonym item = "jsstring \<times> nat \<times> jsstring \<times> priority"

fun categorize :: "jsstring \<Rightarrow> item \<Rightarrow> (jsstring \<times> item list) list \<Rightarrow> (jsstring \<times> item list) list" where
  "categorize c i [] = [(c, [i])]"
| "categorize c i ((k, is) # d) = (if k = c then (k, is @ [i]) # d else (k, is) # categorize c i d)"

definition item_of :: "jsstring \<Rightarrow> suggestion \<Rightarrow> item" where
  "item_of file s = (file, sline s, smessage s, (case priority s of None \<Rightarrow> medium | Some p \<Rightarrow> p))"

definition categorized :: "(jsstring \<times> suggestion list) list \<Rightarrow> (jsstring \<times> item list) list" where
  "categorized sugs =
     foldl (\<lambda>d (file, suggestions). foldl (\<lambda>d s. categorize (category s) (item_of file s) d) d suggestions)
       [] sugs"

fun priorityOrder :: "priority \<Rightarrow> nat" where
  "priorityOrder high = 0"
| "priorityOrder medium = 1"
| "priorityOrder low = 2"

text \<open>\<open>Math.min(...items.map(s => priorityOrder[s.priority]))\<close>, of a category with items.\<close>

definition min_priority :: "item list \<Rightarrow> nat" where
  "min_priority items = foldl min 2 (map (\<lambda>(file, n, m, p). priorityOrder p) items)"

definition tier :: "jsstring \<Rightarrow> priority \<Rightarrow> item list \<Rightarrow> jsstring" where
  "tier mark p items =
     concat (map (\<lambda>(file, n, m, q). (js ''- '') @ mark @ (js '' **'') @ file @ (js '':'') @ dec n @ (js ''** - '') @ m @ [10])
               (filter (\<lambda>(file, n, m, q). q = p) items))"

definition suggestions_section :: "(jsstring \<times> suggestion list) list \<Rightarrow> jsstring" where
  "suggestions_section sugs =
     (if length sugs > 0
      then (let sortedCategories = sort_key (\<lambda>(c, items). min_priority items) (categorized sugs) in
            (js ''### '' @ [0xD83D, 0xDCA1] @ js '' Best Practice Suggestions'' @ [10, 10]) @
            (js ''<details><summary>Click to view React/JavaScript best practices and performance tips</summary>'' @
            [10, 10]) @
            concat (map (\<lambda>(c, items).
                      (js ''#### '') @ c @ ([10, 10]) @
                      tier ([0x26A0, 0xFE0F]) high items @ tier ([0xD83D, 0xDD38]) medium items @ tier ([0xD83D, 0xDCAD]) low items @
                      [10]) sortedCategories) @
            (js ''</details>'' @ [10, 10]))
      else [])"

definition react_render :: "report \<Rightarrow> jsstring" where
  "react_render rep =
     (js ''## '' @ [0xD83E, 0xDD16] @ js '' React/JavaScript Code Review'' @ [10, 10]) @
     (if length (allCritical rep) > 0
      then ([0x26D4] @ js '' **Found '') @ dec (totalCritical rep) @ (js '' CRITICAL issue(s) that must be fixed**'' @ [10, 10])
      else []) @
     critical_section (allCritical rep) @
     ai_section (aiReviews rep) @
     suggestions_section (allSuggestions rep) @
     (if length (allCritical rep) = 0 \<and> length (aiReviews rep) = 0
      then ([0x2705] @ js '' **No critical issues detected**'' @ [10, 10]) @ (js ''Code review passed automated checks.'' @ [10, 10])
      else []) @
     (js ''---'' @ [10]) @
     (js ''**Priority Legend:** '' @ [0x26A0, 0xFE0F] @ js '' High | '' @ [0xD83D, 0xDD38] @
     js '' Medium | '' @ [0xD83D, 0xDCAD] @ js '' Low'' @ [10, 10]) @
     (js ''*'' @ [0xD83D, 0xDCAC] @ js '' Ask questions with '' @ [96] @
     js ''@ai-reviewer [your question]'' @ [96] @ js '' in comments*'')"

definition react_accepts :: "jsstring \<Rightarrow> bool" where
  "react_accepts name \<longleftrightarrow>
     rx_test (cat [L ''.'', alts [cat [L ''js'', Opt (L ''x'')], cat [L ''ts'', Opt (L ''x'')]], Eol]) name \<and>
     \<not> includes_js name (js ''node_modules/'') \<and> \<not> includes_js name (js ''dist/'') \<and>
     \<not> includes_js name (js ''build/'')"

definition react_prompt :: "jsstring \<Rightarrow> jsstring \<Rightarrow> jsstring" where
  "react_prompt name patchPreview =
     (js ''File: '') @ name @ ([10, 10] @ js ''Code changes:'' @ [10, 96, 96, 96] @ js ''diff'' @ [10]) @ patchPreview @
     ([10, 96, 96, 96, 10, 10] @
     js ''Review ONLY the changed lines. Focus on React 18+ patterns, hooks best practices, and performance. Report only definite bugs.'')"

definition react :: reviewer where
  "react = \<lparr>accepts = react_accepts, cap = 10, analyzeCode = react_analyzeCode,
            preview = 3500, prompt_of = react_prompt, no_findings = none_or_no_issues,
            render = react_render\<rparr>"


section \<open>The dispatchers (scripts/dispatcher.js, scripts/comment-dispatcher.js)\<close>

definition parseLanguages :: "jsstring \<Rightarrow> jsstring list" where
  "parseLanguages input =
     (if input = [] \<or> trim input = [] \<or> toLowerCase (trim input) = js ''auto'' then [js ''auto'']
      else filter (\<lambda>s. s \<noteq> []) (map (\<lambda>s. toLowerCase (trim s)) (split 44 input)))"

text \<open>\<open>process.env.LANGUAGES || 'auto'\<close>.\<close>

definition languages_or_auto :: "jsstring option \<Rightarrow> jsstring" where
  "languages_or_auto v = (if truthy v then the v else js ''auto'')"

text \<open>
  The event file of the workflow run: no \<open>GITHUB_EVENT_PATH\<close>, a file that cannot be
  read or parsed, a file that holds the JSON value \<open>null\<close>, or a payload with the
  number at \<open>pull_request.number\<close>, if any. The dispatcher reads it inside a
  \<open>try\<close> and with \<open>event?.pull_request?.number\<close>, so everything but a payload
  with a number gives no number.
\<close>

datatype github_event = NoEventPath | Broken | JsonNull | Payload "nat option"

definition detectLanguagesFromPR :: "github_event \<Rightarrow> jsstring list" where
  "detectLanguagesFromPR ev =
     (case ev of
        Payload (Some prNumber) \<Rightarrow> if prNumber = 0 then [] else [js ''react'', js ''laravel'']
      | _ \<Rightarrow> [])"

text \<open>
  \<open>scriptMap[name]\<close>. \<open>scriptMap\<close> is an object literal, so besides its two keys it
  answers the names it inherits from \<open>Object.prototype\<close> with a value that is not a
  path (\<open>Inherited\<close>); every other name is \<open>undefined\<close>. A path is written without
  the directory of the scripts.
\<close>

datatype script = Script jsstring | Inherited jsstring

definition prototype_names :: "jsstring list" where
  "prototype_names =
     [js ''constructor'', js ''__defineGetter__'', js ''__defineSetter__'', js ''hasOwnProperty'',
      js ''__lookupGetter__'', js ''__lookupSetter__'', js ''isPrototypeOf'', js ''propertyIsEnumerable'',
      js ''toString'', js ''valueOf'', js ''__proto__'', js ''toLocaleString'']"

definition lookup :: "jsstring \<Rightarrow> jsstring \<Rightarrow> jsstring \<Rightarrow> script option" where
  "lookup react_script laravel_script name =
     (if name = js ''react'' then Some (Script react_script)
      else if name = js ''laravel'' then Some (Script laravel_script)
      else if name \<in> set prototype_names then Some (Inherited name)
      else None)"

definition review_scriptMap :: "jsstring \<Rightarrow> script option" where
  "review_scriptMap = lookup (js ''react-reviewer.js'') (js ''laravel-reviewer.js'')"

definition comment_scriptMap :: "jsstring \<Rightarrow> script option" where
  "comment_scriptMap = lookup (js ''react-comment-handler.js'') (js ''comment-handler-laravel.js'')"

text \<open>
  \<open>runScript\<close>. \<open>spawn\<close> stands for \<open>spawnSync('node', [path], ...)\<close>: the exit status
  of the child (\<open>None\<close> for \<open>null\<close>, a child ended by a signal) and what the child did.
  A name without a script returns 0 and starts nothing.
\<close>

definition runScript :: "(jsstring \<Rightarrow> script option) \<Rightarrow> (script \<Rightarrow> nat option \<times> event list) \<Rightarrow> jsstring \<Rightarrow> nat \<times> event list" where
  "runScript scriptMap spawn name =
     (case scriptMap name of
        None \<Rightarrow> (0, [])
      | Some path \<Rightarrow> (case spawn path of (None, evs) \<Rightarrow> (0, evs) | (Some st, evs) \<Rightarrow> (st, evs)))"

text \<open>The loop of both dispatchers: the exit code is the last code that is not 0.\<close>

definition run_one :: "(jsstring \<Rightarrow> script option) \<Rightarrow> (script \<Rightarrow> nat option \<times> event list) \<Rightarrow> run \<Rightarrow> jsstring \<Rightarrow> run" where
  "run_one scriptMap spawn r lang =
     (case runScript scriptMap spawn lang of
        (code, evs) \<Rightarrow> \<lparr>exitCode = (if code \<noteq> 0 then code else exitCode r), events = events r @ evs\<rparr>)"

definition run_all :: "(jsstring \<Rightarrow> script option) \<Rightarrow> (script \<Rightarrow> nat option \<times> event list) \<Rightarrow> jsstring list \<Rightarrow> run" where
  "run_all scriptMap spawn toRun = foldl (run_one scriptMap spawn) \<lparr>exitCode = 0, events = []\<rparr> toRun"

text \<open>scripts/dispatcher.js: the reviewers to run, and the run.\<close>

definition review_toRun :: "jsstring option \<Rightarrow> github_event \<Rightarrow> jsstring list" where
  "review_toRun LANGUAGES ev =
     (let langsInput = parseLanguages (languages_or_auto LANGUAGES);
          toRun = (if js ''auto'' \<in> set langsInput then detectLanguagesFromPR ev else langsInput)
      in if length toRun = 0 then [js ''react''] else toRun)"

definition dispatcher :: "(script \<Rightarrow> nat option \<times> event list) \<Rightarrow> jsstring option \<Rightarrow> github_event \<Rightarrow> run" where
  "dispatcher spawn LANGUAGES ev = run_all review_scriptMap spawn (review_toRun LANGUAGES ev)"

text \<open>scripts/comment-dispatcher.js.\<close>

definition comment_toRun :: "jsstring option \<Rightarrow> jsstring list" where
  "comment_toRun LANGUAGES =
     (let langs = parseLanguages (languages_or_auto LANGUAGES)
      in if js ''auto'' \<in> set langs then [js ''react'', js ''laravel''] else langs)"

definition comment_dispatcher :: "(script \<Rightarrow> nat option \<times> event list) \<Rightarrow> jsstring option \<Rightarrow> run" where
  "comment_dispatcher spawn LANGUAGES = run_all comment_scriptMap spawn (comment_toRun LANGUAGES)"

section \<open>The comment handlers\<close>

text \<open>\<open>comment.replace(/@ai-reviewer/gi, '').trim()\<close>: every occurrence is removed.\<close>

function remove_all_ci :: "jsstring \<Rightarrow> jsstring \<Rightarrow> jsstring" where
  "remove_all_ci w [] = []"
| "remove_all_ci w (c # cs) =
     (if w \<noteq> [] \<and> map to_upper (take (length w) (c # cs)) = map to_upper w
      then remove_all_ci w (drop (length w) (c # cs))
      else c # remove_all_ci w cs)"
  by pat_completeness auto
termination
  by (relation "measure (\<lambda>(w, s). length s)") (auto simp: neq_Nil_conv)

definition extractQuestion :: "jsstring \<Rightarrow> jsstring" where
  "extractQuestion comment = trim (remove_all_ci (js ''@ai-reviewer'') comment)"

text \<open>The messages \<open>askAI\<close> returns in place of an answer.\<close>

definition not_configured :: jsstring where
  "not_configured = ([0x26A0, 0xFE0F] @
            js '' GROQ_API_KEY not configured. Add it to GitHub Secrets to enable AI responses.'')"

definition error_communicating :: jsstring where
  "error_communicating = ([0x274C] @ js '' Error communicating with AI'')"

definition error_service :: jsstring where
  "error_service = ([0x274C] @ js '' Error communicating with AI service'')"

definition unable :: jsstring where
  "unable = ([0x274C] @ js '' Unable to get AI response'')"

text \<open>
  \<open>askAI\<close>. The React handler tests \<open>response.ok\<close>; the Laravel and Swift handlers
  read the body of any response. The answer is never empty.
\<close>

definition askAI :: "bool \<Rightarrow> jsstring \<Rightarrow> config \<Rightarrow> env \<Rightarrow> jsstring \<Rightarrow> jsstring \<Rightarrow> jsstring" where
  "askAI checks_ok heading cfg e question ctx =
     (if \<not> truthy (GROQ_API_KEY cfg) then not_configured
      else (case completion e (if ctx \<noteq> [] then heading @ ctx else []) question of
              FetchError \<Rightarrow> error_communicating
            | Response ok body \<Rightarrow>
                if checks_ok \<and> \<not> ok then error_service
                else (case body of
                        Unreadable \<Rightarrow> error_communicating
                      | NoChoices \<Rightarrow> error_communicating
                      | NoContent \<Rightarrow> unable
                      | Content c \<Rightarrow> if c = [] then unable else c)))"

text \<open>The requests a handler sends to the completion endpoint: none without a key.\<close>

definition asked :: "jsstring \<Rightarrow> config \<Rightarrow> jsstring \<Rightarrow> jsstring \<Rightarrow> event list" where
  "asked heading cfg question ctx =
     (if truthy (GROQ_API_KEY cfg) then [Queried (if ctx \<noteq> [] then heading @ ctx else []) question] else [])"

text \<open>\<open>s.match(r)[0]\<close> when there is a match: the text of the leftmost match.\<close>

definition match_text :: "rx \<Rightarrow> jsstring \<Rightarrow> jsstring option" where
  "match_text r s =
     (case find (\<lambda>q. ends r q \<noteq> []) (cursors None s) of
        None \<Rightarrow> None
      | Some q \<Rightarrow> Some (take (length (snd q) - length (snd (hd (ends r q)))) (snd q)))"

definition description :: "nat \<Rightarrow> jsstring option \<Rightarrow> jsstring" where
  "description n body = (if truthy body then (js ''Description: '') @ slice 0 n (the body) @ [10] else [])"

definition file_entry :: "changed_file \<Rightarrow> jsstring" where
  "file_entry f = (js ''- '') @ filename f @ (js '' ('') @ dec (additions f) @ (js ''+ '') @ dec (deletions f) @ (js ''-)'' @ [10])"

definition code_sample :: "changed_file list \<Rightarrow> jsstring" where
  "code_sample files =
     (case files of
        [] \<Rightarrow> []
      | f # _ \<Rightarrow>
          if truthy (patch f)
          then ([10, 10] @ js ''Code sample from '') @ filename f @ (js '':'' @ [10, 96, 96, 96, 10]) @ slice 0 800 (the (patch f)) @ ([10, 96, 96, 96])
          else [])"

subsection \<open>scripts/react-comment-handler.js\<close>

definition react_getPRContext :: "env \<Rightarrow> jsstring" where
  "react_getPRContext e =
     (case pull e of
        None \<Rightarrow> []
      | Some (title, body) \<Rightarrow>
          (case listFiles e of
             None \<Rightarrow> []
           | Some files \<Rightarrow>
               (let jsFiles = slice 0 5 (filter (\<lambda>f. rx_test (cat [L ''.'', alts [cat [L ''js'', Opt (L ''x'')],
                                                   cat [L ''ts'', Opt (L ''x'')]], Eol]) (filename f)) files)
                in (js ''PR: '') @ title @ [10] @ description 300 body @
                   ([10] @ js ''Changed files ('') @ dec (length files) @ (js '' total):'' @ [10]) @
                   concat (map file_entry jsFiles) @ code_sample jsFiles)))"

definition detectFileName :: "jsstring \<Rightarrow> jsstring option" where
  "detectFileName question =
     match_text (cat [WordB, Plus (Cls (\<lambda>c. is_word c \<or> c = 45)), L ''.'',
                      alts [cat [L ''js'', Opt (L ''x'')], cat [L ''ts'', Opt (L ''x'')]], WordB]) question"

definition react_help :: jsstring where
  "react_help = ([0xD83D, 0xDC4B] @ js '' Hi! I'' @ [39] @
            js ''m the AI code reviewer. Ask me anything about this React/JavaScript code!'' @
            [10, 10] @ js ''**Examples:**'' @ [10] @ js ''- '' @ [96] @
            js ''@ai-reviewer explain this hook pattern'' @ [96, 10] @ js ''- '' @ [96] @
            js ''@ai-reviewer how can I improve performance?'' @ [96, 10] @ js ''- '' @ [96] @
            js ''@ai-reviewer is this the best way to handle state?'' @ [96, 10] @ js ''- '' @
            [96] @ js ''@ai-reviewer what'' @ [39] @ js ''s wrong with this useEffect?'' @
            [96, 10] @ js ''- '' @ [96] @
            js ''@ai-reviewer suggest alternatives for this component'' @ [96, 10, 10] @
            js ''I'' @ [39] @
            js ''m familiar with React 18+, TypeScript, modern hooks, and performance optimization.'')"

definition react_reply :: "jsstring \<Rightarrow> jsstring" where
  "react_reply answer =
     (js ''### '' @ [0xD83E, 0xDD16] @ js '' AI Reviewer Response (React)'' @ [10, 10]) @ answer @
     ([10, 10] @ js ''---'' @ [10] @ js ''*Have more questions? Just mention '' @ [96] @
     js ''@ai-reviewer'' @ [96] @ js '' followed by your question!*'')"

definition react_handleComment :: "config \<Rightarrow> env \<Rightarrow> run" where
  "react_handleComment cfg e =
     (let question = extractQuestion (COMMENT_BODY cfg) in
      if question = [] then \<lparr>exitCode = 0, events = [Posted react_help]\<rparr>
      else
        (let mentionedFile = detectFileName question;
             fileContent = (case mentionedFile of
                              None \<Rightarrow> None
                            | Some name \<Rightarrow> (case getContent e name of
                                             None \<Rightarrow> None
                                           | Some content \<Rightarrow> Some (slice 0 2000 content)));
             ctx = react_getPRContext e;
             fullContext = (if truthy fileContent
                            then ctx @ ([10, 10] @ js ''File content ('') @ the mentionedFile @ (js ''):'' @ [10, 96, 96, 96, 10]) @
                                 the fileContent @ ([10, 96, 96, 96])
                            else ctx);
             answer = askAI True ([10, 10] @ js ''CONTEXT:'' @ [10]) cfg e question fullContext
         in \<lparr>exitCode = 0,
             events = asked ([10, 10] @ js ''CONTEXT:'' @ [10]) cfg question fullContext @ [Posted (react_reply answer)]\<rparr>))"

subsection \<open>scripts/comment-handler-laravel.js\<close>

definition laravel_getPRContext :: "env \<Rightarrow> jsstring" where
  "laravel_getPRContext e =
     (case pull e of
        None \<Rightarrow> []
      | Some (title, body) \<Rightarrow>
          (case listFiles e of
             None \<Rightarrow> []
           | Some files \<Rightarrow>
               (let phpFiles = slice 0 3 (filter (\<lambda>f. rx_test (cat [L ''.php'', Eol]) (filename f)) files)
                in (js ''PR: '') @ title @ [10] @ description 200 body @
                   ([10] @ js ''Changed files: '') @ join (js '', '') (map filename phpFiles))))"

definition laravel_help :: jsstring where
  "laravel_help = ([0xD83D, 0xDC4B] @ js '' Mention '' @ [96] @ js ''@ai-reviewer'' @ [96] @
            js '' followed by your question!'' @ [10, 10] @ js ''Examples:'' @ [10] @
            js ''- @ai-reviewer explain this eloquent query'' @ [10] @
            js ''- @ai-reviewer how can I prevent SQL injection here?'' @ [10] @
            js ''- @ai-reviewer is this the best approach for validation?'')"

definition laravel_reply :: "jsstring \<Rightarrow> jsstring" where
  "laravel_reply answer =
     (js ''**@ai-reviewer (Laravel):** '') @ answer @ ([10, 10] @ js ''---'' @ [10] @ js ''*Ask me anything by mentioning @ai-reviewer*'')"

definition laravel_handleComment :: "config \<Rightarrow> env \<Rightarrow> run" where
  "laravel_handleComment cfg e =
     (let question = extractQuestion (COMMENT_BODY cfg) in
      if question = [] then \<lparr>exitCode = 0, events = [Posted laravel_help]\<rparr>
      else
        (let ctx = laravel_getPRContext e;
             answer = askAI False ([10, 10] @ js ''Context:'' @ [10]) cfg e question ctx
         in \<lparr>exitCode = 0,
             events = asked ([10, 10] @ js ''Context:'' @ [10]) cfg question ctx @ [Posted (laravel_reply answer)]\<rparr>))"

subsection \<open>The Swift comment handler\<close>

definition swift_getPRContext :: "env \<Rightarrow> jsstring" where
  "swift_getPRContext e =
     (case pull e of
        None \<Rightarrow> []
      | Some (title, body) \<Rightarrow>
          (case listFiles e of
             None \<Rightarrow> []
           | Some files \<Rightarrow>
               (let swiftFiles = slice 0 5 (filter (\<lambda>f. rx_test (cat [L ''.swift'', Eol]) (filename f)) files)
                in (js ''PR: '') @ title @ [10] @ description 300 body @
                   ([10] @ js ''Changed Swift files ('') @ dec (length swiftFiles) @ (js '' shown):'' @ [10]) @
                   concat (map file_entry swiftFiles) @ code_sample swiftFiles)))"

definition swift_help :: jsstring where
  "swift_help = ([0xD83D, 0xDC4B] @ js '' Mention '' @ [96] @ js ''@ai-reviewer'' @ [96] @
            js '' followed by your question!'' @ [10, 10] @ js ''Examples:'' @ [10] @
            js ''- @ai-reviewer is this retain cycle safe?'' @ [10] @
            js ''- @ai-reviewer should this be async/await?'' @ [10] @
            js ''- @ai-reviewer is force unwrap here safe?'')"

definition swift_reply :: "jsstring \<Rightarrow> jsstring" where
  "swift_reply answer = (js ''### '' @ [0xD83C, 0xDF4E] @ js '' iOS/Swift Reviewer'' @ [10, 10]) @ answer @ ([10, 10] @ js ''---'' @ [10] @ js ''*Ask more with '' @ [96] @ js ''@ai-reviewer'' @
            [96] @ js ''*'')"

definition swift_handleComment :: "config \<Rightarrow> env \<Rightarrow> run" where
  "swift_handleComment cfg e =
     (let question = extractQuestion (COMMENT_BODY cfg) in
      if question = [] then \<lparr>exitCode = 0, events = [Posted swift_help]\<rparr>
      else
        (let ctx = swift_getPRContext e;
             answer = askAI False ([10, 10] @ js ''CONTEXT:'' @ [10]) cfg e question ctx
         in \<lparr>exitCode = 0,
             events = asked ([10, 10] @ js ''CONTEXT:'' @ [10]) cfg question ctx @ [Posted (swift_reply answer)]\<rparr>))"

subsection \<open>The handlers as the children of the comment dispatcher\<close>

text \<open>
  The two scripts of \<open>comment_scriptMap\<close> started as child processes. Started on
  anything else, node finds no script of this repository to run.
\<close>

definition comment_children :: "config \<Rightarrow> env \<Rightarrow> script \<Rightarrow> nat option \<times> event list" where
  "comment_children cfg e s =
     (if s = Script (js ''react-comment-handler.js'')
      then (Some (exitCode (react_handleComment cfg e)), events (react_handleComment cfg e))
      else if s = Script (js ''comment-handler-laravel.js'')
      then (Some (exitCode (laravel_handleComment cfg e)), events (laravel_handleComment cfg e))
      else (Some 1, []))"

subsection \<open>The reviewer scripts as processes\<close>




text \<open>The comments a run posted.\<close>

definition posted :: "event list \<Rightarrow> jsstring list" where
  "posted evs = concat (map (\<lambda>ev. case ev of Posted body \<Rightarrow> [body] | _ \<Rightarrow> []) evs)"


section \<open>Notions used in the statements\<close>

text \<open>A cursor of the subject \<open>s\<close>: a way to cut \<open>s\<close> in two.\<close>

definition at :: "jsstring \<Rightarrow> cursor \<Rightarrow> bool" where
  "at s q \<longleftrightarrow> (\<exists>u. s = u @ snd q \<and> fst q = (if u = [] then None else Some (last u)))"

text \<open>What one file adds to \<open>allCritical\<close>: its critical issues, when it has any.\<close>

definition critical_of :: "reviewer \<Rightarrow> env \<Rightarrow> changed_file \<Rightarrow> (jsstring \<times> issue list) list" where
  "critical_of rv e f =
     (case getContent e (filename f) of
        None \<Rightarrow> []
      | Some content \<Rightarrow>
          (case analyzeCode rv content (filename f) of
             Inl err \<Rightarrow> []
           | Inr (critical, suggestions) \<Rightarrow> push_if (critical \<noteq> []) (filename f, critical)))"



text \<open>
  The prompt of the AI request the loop makes for a file, and a request for a completion
  that fails: \<open>fetch\<close> throws, the response is not \<open>ok\<close>, its body cannot be read,
  or it has no \<open>choices\<close>.
\<close>

definition ai_prompt :: "reviewer \<Rightarrow> changed_file \<Rightarrow> jsstring" where
  "ai_prompt rv f =
     prompt_of rv (filename f) (slice 0 (preview rv) (case patch f of None \<Rightarrow> [] | Some p \<Rightarrow> p))"

definition request_failed :: "ai_response \<Rightarrow> bool" where
  "request_failed r \<longleftrightarrow>
     (case r of
        FetchError \<Rightarrow> True
      | Response ok body \<Rightarrow> \<not> ok \<or> body = Unreadable \<or> body = NoChoices)"

text \<open>What one file adds to \<open>allSuggestions\<close>: its suggestions, when it has any.\<close>

definition suggestions_of :: "reviewer \<Rightarrow> env \<Rightarrow> changed_file \<Rightarrow> (jsstring \<times> suggestion list) list" where
  "suggestions_of rv e f =
     (case getContent e (filename f) of
        None \<Rightarrow> []
      | Some content \<Rightarrow>
          (case analyzeCode rv content (filename f) of
             Inl err \<Rightarrow> []
           | Inr (critical, suggestions) \<Rightarrow> push_if (suggestions \<noteq> []) (filename f, suggestions)))"


text \<open>A response of the completion endpoint that carries no answer.\<close>

definition no_answer :: "ai_response \<Rightarrow> bool" where
  "no_answer r \<longleftrightarrow>
     (case r of
        FetchError \<Rightarrow> True
      | Response ok body \<Rightarrow> (case body of Content c \<Rightarrow> c = [] | _ \<Rightarrow> True))"

text \<open>The messages with which \<open>askAI\<close> replaces an answer.\<close>

definition fallbacks :: "jsstring list" where
  "fallbacks = [not_configured, error_communicating, error_service, unable]"

text \<open>
  The auto mode of the specification, following its words (section 4.4) for comparison
  with the dispatchers: every profile whose matcher accepts at least one changed file,
  and a single default profile when there is none. The profiles are the two of the
  dispatchers' \<open>scriptMap\<close>, their matchers the file tests of the reviewers'
  \<open>getPRDiff\<close>, the default the \<open>react\<close> of scripts/dispatcher.js.
\<close>

definition spec_matcher :: "jsstring \<Rightarrow> jsstring \<Rightarrow> bool" where
  "spec_matcher profile name =
     (if profile = js ''react'' then react_accepts name else laravel_accepts name)"

definition spec_auto_select :: "jsstring list \<Rightarrow> jsstring list" where
  "spec_auto_select changedFiles =
     (let selected = filter (\<lambda>profile. list_ex (spec_matcher profile) changedFiles)
                       [js ''react'', js ''laravel'']
      in if selected = [] then [js ''react''] else selected)"

section \<open>Concrete runs\<close>

text \<open>Inputs at which the theorems below are instantiated and the code is run.\<close>

definition sample_cfg :: config where
  "sample_cfg = \<lparr>GROQ_API_KEY = Some (js ''key''), PR_NUMBER = Some 7,
                  COMMENT_BODY = js ''@ai-reviewer why?''\<rparr>"

definition php_file :: changed_file where
  "php_file = \<lparr>filename = js ''app/A.php'', status = js ''modified'', patch = None,
                additions = 1, deletions = 0\<rparr>"

text \<open>A pull request that changes one PHP file with a forgotten \<open>dd\<close>; no completion service.\<close>

definition debug_env :: env where
  "debug_env = \<lparr>listFiles = Some [php_file], getContent = (\<lambda>path. Some (js ''dd($x);'')),
                 completion = (\<lambda>sys prompt. FetchError), pull = None\<rparr>"


text \<open>The listing of the changed files fails.\<close>

definition no_listing_env :: env where
  "no_listing_env = debug_env\<lparr>listFiles := None\<rparr>"

text \<open>The content of one of two changed files cannot be fetched.\<close>

definition lost_file :: changed_file where
  "lost_file = php_file\<lparr>filename := js ''app/B.php''\<rparr>"

definition lossy_env :: env where
  "lossy_env = debug_env\<lparr>getContent := (\<lambda>path. if path = js ''app/B.php'' then None
                                                  else Some (js ''dd($x);''))\<rparr>"

text \<open>A removed file listed before a modified one.\<close>

definition removed_file :: changed_file where
  "removed_file = php_file\<lparr>filename := js ''app/Old.php'', status := js ''removed''\<rparr>"

definition removal_env :: env where
  "removal_env = debug_env\<lparr>listFiles := Some [removed_file, php_file]\<rparr>"

text \<open>A file with a patch of 51 code units, and a completion service that reports a bug.\<close>

definition patched_file :: changed_file where
  "patched_file = php_file\<lparr>patch := Some (replicate 51 43)\<rparr>"

definition ai_env :: env where
  "ai_env = debug_env\<lparr>completion := (\<lambda>sys prompt. Response True (Content (js ''CRITICAL: - Line 1: dd() left in'')))\<rparr>"

text \<open>
  Completion services that find nothing and say so in their own words, and one that
  answers as the system message asks.
\<close>

definition jsx_file :: changed_file where
  "jsx_file = patched_file\<lparr>filename := js ''src/App.jsx''\<rparr>"

definition swift_file :: changed_file where
  "swift_file = patched_file\<lparr>filename := js ''Sources/App.swift''\<rparr>"

definition lowercase_env :: env where
  "lowercase_env =
     debug_env\<lparr>listFiles := Some [patched_file, jsx_file, swift_file],
               getContent := (\<lambda>path. Some (js ''x = 1'')),
               completion := (\<lambda>sys prompt. Response True (Content (js ''no issues found'')))\<rparr>"

definition none_env :: env where
  "none_env =
     debug_env\<lparr>completion := (\<lambda>sys prompt. Response True (Content (js ''CRITICAL: None'' @ [10] @ js ''SUGGESTIONS: None'')))\<rparr>"

text \<open>A pull request with one patched file; the completion endpoint answers with status 500.\<close>

definition failing_ai_env :: env where
  "failing_ai_env =
     debug_env\<lparr>listFiles := Some [patched_file],
               completion := (\<lambda>sys prompt. Response False Unreadable)\<rparr>"

text \<open>A controller that validates in place: one suggestion of the Laravel rules, no critical issue.\<close>

definition controller_file :: changed_file where
  "controller_file = php_file\<lparr>filename := js ''app/UserController.php''\<rparr>"

definition controller_env :: env where
  "controller_env =
     debug_env\<lparr>listFiles := Some [controller_file],
               getContent := (\<lambda>path. Some (js ''class UserController'' @ [10] @ js ''$request->validate([''))\<rparr>"

text \<open>A pull request that changes only the read-me.\<close>

definition readme_file :: changed_file where
  "readme_file = php_file\<lparr>filename := js ''README.md''\<rparr>"

definition readme_env :: env where
  "readme_env = debug_env\<lparr>listFiles := Some [readme_file]\<rparr>"

text \<open>A child process that always exits with status 1.\<close>

definition failing_child :: "script \<Rightarrow> nat option \<times> event list" where
  "failing_child s = (Some 1, [])"

section \<open>Lemmas: the matcher\<close>

lemma split_not_Nil: "split sep s \<noteq> []"
  by (induction s) (auto split: list.splits)

lemma pop_split: "pop (split sep s) = Some (last (split sep s))"
  by (simp add: pop_def split_not_Nil)

lemma cursors_iff:
  "(p', t) \<in> set (cursors p s) \<longleftrightarrow> (\<exists>u. s = u @ t \<and> p' = (if u = [] then p else Some (last u)))"
proof (induction s arbitrary: p)
  case Nil
  then show ?case by auto
next
  case (Cons c cs)
  show ?case
  proof
    assume "(p', t) \<in> set (cursors p (c # cs))"
    then consider "p' = p \<and> t = c # cs" | "(p', t) \<in> set (cursors (Some c) cs)" by auto
    then show "\<exists>u. c # cs = u @ t \<and> p' = (if u = [] then p else Some (last u))"
    proof cases
      case 1
      then show ?thesis by (intro exI[of _ "[]"]) simp
    next
      case 2
      then obtain u where "cs = u @ t" "p' = (if u = [] then Some c else Some (last u))"
        using Cons.IH by blast
      then show ?thesis by (intro exI[of _ "c # u"]) simp
    qed
  next
    assume "\<exists>u. c # cs = u @ t \<and> p' = (if u = [] then p else Some (last u))"
    then obtain u where u: "c # cs = u @ t" "p' = (if u = [] then p else Some (last u))" by blast
    show "(p', t) \<in> set (cursors p (c # cs))"
    proof (cases u)
      case Nil
      with u have "t = c # cs" "p' = p" by simp_all
      then show ?thesis by simp
    next
      case (Cons a u')
      with u have "cs = u' @ t" "p' = (if u' = [] then Some c else Some (last u'))" by auto
      then have "(p', t) \<in> set (cursors (Some c) cs)" using Cons.IH by blast
      then show ?thesis by simp
    qed
  qed
qed

lemma at_cursors: "at s q \<longleftrightarrow> q \<in> set (cursors None s)"
  by (cases q) (simp add: at_def cursors_iff)

lemma at_extend:
  assumes "at s (p, v @ t)"
  shows "at s (after_lit p v, t)"
proof -
  from assms obtain u where u: "s = u @ v @ t" "p = (if u = [] then None else Some (last u))"
    by (auto simp: at_def)
  show ?thesis unfolding at_def
    by (rule exI[of _ "u @ v"]) (use u in \<open>auto simp: after_lit_def\<close>)
qed

lemma star_it_at:
  assumes "\<And>q q'. at s q \<Longrightarrow> q' \<in> set (f q) \<Longrightarrow> at s q'"
  shows "at s q \<Longrightarrow> q' \<in> set (star_it f n q) \<Longrightarrow> at s q'"
proof (induction n arbitrary: q)
  case 0
  then show ?case by simp
next
  case (Suc n)
  from Suc.prems(2) consider "q' = q" | m where "m \<in> set (f q)" "q' \<in> set (star_it f n m)"
    by auto
  then show ?case
  proof cases
    case 1
    with Suc.prems show ?thesis by simp
  next
    case 2
    with assms Suc.prems(1) have "at s m" by blast
    with 2 Suc.IH show ?thesis by blast
  qed
qed

lemma ends_at: "at s q \<Longrightarrow> q' \<in> set (ends r q) \<Longrightarrow> at s q'"
proof (induction r arbitrary: q q')
  case (Lit w)
  obtain p t where q: "q = (p, t)" by (cases q)
  with Lit have tw: "take (length w) t = w" and q': "q' = (after_lit p w, drop (length w) t)"
    by (auto split: if_splits)
  from tw have "t = w @ drop (length w) t" by (metis append_take_drop_id)
  with Lit.prems(1) q have "at s (p, w @ drop (length w) t)" by simp
  then show ?case unfolding q' by (rule at_extend)
next
  case (LitI w)
  obtain p t where q: "q = (p, t)" by (cases q)
  with LitI have q': "q' = (after_lit p (take (length w) t), drop (length w) t)"
    by (auto split: if_splits)
  from LitI.prems(1) q have "at s (p, take (length w) t @ drop (length w) t)" by simp
  then show ?case unfolding q' by (rule at_extend)
next
  case (Cls P)
  obtain p t where q: "q = (p, t)" by (cases q)
  with Cls obtain c where t: "t = c # snd q'" and q': "fst q' = Some c"
    by (auto split: list.splits if_splits)
  from Cls.prems(1) q t have "at s (p, [c] @ snd q')" by simp
  then have "at s (after_lit p [c], snd q')" by (rule at_extend)
  with q' show ?case by (cases q') (simp add: after_lit_def)
next
  case (Seq a b)
  from Seq.prems(2) obtain m where "m \<in> set (ends a q)" "q' \<in> set (ends b m)" by auto
  with Seq.IH Seq.prems(1) show ?case by blast
next
  case (Alt a b)
  from Alt.prems(2) have "q' \<in> set (ends a q) \<or> q' \<in> set (ends b q)" by simp
  with Alt.IH Alt.prems(1) show ?case by blast
next
  case (Star r)
  from Star.prems(2) have "q' \<in> set (star_it (ends r) (length (snd q)) q)" by simp
  moreover have "\<And>a b. at s a \<Longrightarrow> b \<in> set (ends r a) \<Longrightarrow> at s b" by (rule Star.IH)
  ultimately show ?case using Star.prems(1) star_it_at by blast
next
  case Bol
  then show ?case by (cases q) (auto split: if_splits)
next
  case Eol
  then show ?case by (cases q) (auto split: if_splits)
next
  case WordB
  then show ?case by (cases q) (auto split: if_splits)
qed

lemma ends_Cls_step:
  "q' \<in> set (ends (Cls P) q) \<Longrightarrow> \<exists>c. snd q = c # snd q' \<and> P c"
  by (cases q) (auto split: list.splits if_splits)

lemma star_it_Cls_run:
  "q' \<in> set (star_it (ends (Cls P)) n q) \<Longrightarrow> \<exists>v. snd q = v @ snd q' \<and> list_all P v"
proof (induction n arbitrary: q)
  case 0
  then show ?case by simp
next
  case (Suc n)
  from Suc.prems consider "q' = q" | m where "m \<in> set (ends (Cls P) q)" "q' \<in> set (star_it (ends (Cls P)) n m)"
    by auto
  then show ?case
  proof cases
    case 1
    then show ?thesis by simp
  next
    case 2
    from 2(1) obtain c where c: "snd q = c # snd m" "P c" using ends_Cls_step by blast
    from 2(2) Suc.IH obtain v where v: "snd m = v @ snd q'" "list_all P v" by blast
    show ?thesis by (rule exI[of _ "c # v"]) (use c v in simp)
  qed
qed

lemma ends_Plus_Cls_run:
  assumes "q' \<in> set (ends (Plus (Cls P)) q)"
  shows "\<exists>v. snd q = v @ snd q' \<and> list_all P v"
proof -
  from assms obtain m where m: "m \<in> set (ends (Cls P) q)" "q' \<in> set (star_it (ends (Cls P)) (length (snd m)) m)"
    by (auto simp: Plus_def)
  from m(1) obtain c where c: "snd q = c # snd m" "P c" using ends_Cls_step by blast
  from m(2) obtain v where v: "snd m = v @ snd q'" "list_all P v" using star_it_Cls_run by blast
  show ?thesis by (rule exI[of _ "c # v"]) (use c v in simp)
qed

lemma find_ex: "x \<in> set xs \<Longrightarrow> P x \<Longrightarrow> \<exists>y. find P xs = Some y"
  by (cases "find P xs") (auto simp: find_None_iff)

lemma find_sat: "find P xs = Some y \<Longrightarrow> P y"
  by (auto simp: find_Some_iff)

lemma match_group_Some:
  assumes "q \<in> set (cursors None s)" "ends (Seq P G) q \<noteq> []"
  shows "\<exists>v. match_group P G s = Some v"
proof -
  from assms obtain q0 where q0: "find (\<lambda>q. ends (Seq P G) q \<noteq> []) (cursors None s) = Some q0"
    using find_ex[of q "cursors None s" "\<lambda>q. ends (Seq P G) q \<noteq> []"] by blast
  then have "ends (Seq P G) q0 \<noteq> []" by (rule find_sat)
  then obtain q1 where "q1 \<in> set (ends P q0)" "ends G q1 \<noteq> []" by auto
  then obtain q2 where "find (\<lambda>q1. ends G q1 \<noteq> []) (ends P q0) = Some q2"
    using find_ex[of q1 "ends P q0" "\<lambda>q1. ends G q1 \<noteq> []"] by blast
  with q0 show ?thesis by (simp add: match_group_def)
qed

lemma match_group_word:
  assumes "match_group P (Plus (Cls C)) s = Some v"
  shows "list_all C v"
proof -
  from assms obtain q0 q1 where
    q1: "find (\<lambda>q1. ends (Plus (Cls C)) q1 \<noteq> []) (ends P q0) = Some q1" and
    v: "v = take (length (snd q1) - length (snd (hd (ends (Plus (Cls C)) q1)))) (snd q1)"
    by (auto simp: match_group_def split: option.splits)
  from q1 have "ends (Plus (Cls C)) q1 \<noteq> []" by (rule find_sat)
  then have "hd (ends (Plus (Cls C)) q1) \<in> set (ends (Plus (Cls C)) q1)" by simp
  then obtain w where w: "snd q1 = w @ snd (hd (ends (Plus (Cls C)) q1))" "list_all C w"
    using ends_Plus_Cls_run by blast
  from w(1) have "take (length (snd q1) - length (snd (hd (ends (Plus (Cls C)) q1)))) (snd q1) = w"
    by (metis add_diff_cancel_right' append_eq_conv_conj length_append)
  with v w(2) show ?thesis by simp
qed

lemma let_test_match:
  assumes "rx_test (cat [Bol, Star sp, L ''let'', Plus sp, Plus wd, Star sp, L ''='']) ln"
  shows "\<exists>q \<in> set (cursors None ln). ends (Seq (cat [L ''let'', Plus sp]) (Plus wd)) q \<noteq> []"
proof -
  from assms obtain q0 qe where q0: "q0 \<in> set (cursors None ln)"
    and qe: "qe \<in> set (ends (cat [Bol, Star sp, L ''let'', Plus sp, Plus wd, Star sp, L ''='']) q0)"
    unfolding rx_test_def list_ex_iff by (meson last_in_set)
  from qe obtain q1 q2 q3 q4 q5 where
    "q1 \<in> set (ends Bol q0)" and q2: "q2 \<in> set (ends (Star sp) q1)" and
    q3: "q3 \<in> set (ends (L ''let'') q2)" and q4: "q4 \<in> set (ends (Plus sp) q3)" and
    q5: "q5 \<in> set (ends (Plus wd) q4)"
    by auto
  then have "q1 = q0" by (cases q0) (auto split: if_splits)
  with q0 q2 have "q2 \<in> set (cursors None ln)" using ends_at at_cursors by blast
  moreover from q3 q4 q5 have "q5 \<in> set (ends (Seq (cat [L ''let'', Plus sp]) (Plus wd)) q2)"
    by auto
  ultimately show ?thesis by force
qed

lemma react_prefer_const_total: "\<exists>r. react_prefer_const lines idx ln = Inr r"
proof (cases "rx_test (cat [Bol, Star sp, L ''let'', Plus sp, Plus wd, Star sp, L ''='']) ln")
  case False
  then show ?thesis by (simp add: react_prefer_const_def)
next
  case True
  then obtain v where v: "match_group (cat [L ''let'', Plus sp]) (Plus wd) ln = Some v"
    using let_test_match match_group_Some by blast
  then have "list_all is_word v" by (rule match_group_word)
  then have "\<exists>r. regexp_of_name v = Inr r" by (simp add: regexp_of_name_def)
  with True v show ?thesis by (auto simp: react_prefer_const_def Let_def)
qed

lemma react_suggestions_line_total: "\<exists>r. react_suggestions_line lines idx ln = Inr r"
proof -
  obtain r where "react_prefer_const lines idx ln = Inr r" using react_prefer_const_total by blast
  then show ?thesis by (simp add: react_suggestions_line_def Let_def)
qed

lemma forEach_try_total:
  assumes "\<And>idx x. \<exists>r. f idx x = Inr r"
  shows "\<exists>r. forEach_try f xs = Inr r"
proof (induction xs)
  case Nil
  then show ?case by simp
next
  case (Cons a xs)
  obtain idx x where a: "a = (idx, x)" by (cases a)
  from assms obtain r where "f idx x = Inr r" by blast
  moreover from Cons obtain rs where "forEach_try f xs = Inr rs" by blast
  ultimately show ?case using a by simp
qed

lemma react_checkBestPractices_total: "\<exists>r. react_checkBestPractices content name = Inr r"
proof -
  have "\<exists>r. forEach_try (react_suggestions_line (split 10 content)) (enumerate 0 (split 10 content)) = Inr r"
    by (rule forEach_try_total) (rule react_suggestions_line_total)
  then show ?thesis by (simp add: react_checkBestPractices_def Let_def pop_split)
qed

lemma react_analyzeCode_total: "\<exists>r. react_analyzeCode content name = Inr r"
proof -
  obtain s where "react_checkBestPractices content name = Inr s"
    using react_checkBestPractices_total by blast
  then show ?thesis by (simp add: react_analyzeCode_def Let_def)
qed

section \<open>Lemmas: the review loop\<close>

lemma review_file_critical:
  "allCritical (fst (review_file rv cfg e f st)) = allCritical (fst st) @ critical_of rv e f"
  by (cases st)
     (auto simp: review_file_def critical_of_def Let_def split: option.splits sum.splits prod.splits)














lemma review_file_events:
  "ev \<in> set (snd (review_file rv cfg e f st)) \<Longrightarrow>
     ev \<in> set (snd st) \<or> ev = Fetched f \<or> ev = Analysed f \<or> (\<exists>p. ev = Asked f p)"
  by (cases st)
     (auto simp: review_file_def Let_def split: option.splits sum.splits prod.splits if_splits)

lemma foldl_review_events:
  "ev \<in> set (snd (foldl (\<lambda>st f. review_file rv cfg e f st) st files)) \<Longrightarrow>
     ev \<in> set (snd st) \<or> (\<exists>f \<in> set files. ev = Fetched f \<or> ev = Analysed f \<or> (\<exists>p. ev = Asked f p))"
proof (induction files arbitrary: st)
  case Nil
  then show ?case by simp
next
  case (Cons g files)
  from Cons.prems have "ev \<in> set (snd (foldl (\<lambda>st f. review_file rv cfg e f st) (review_file rv cfg e g st) files))"
    by simp
  then consider "ev \<in> set (snd (review_file rv cfg e g st))"
    | "\<exists>f \<in> set files. ev = Fetched f \<or> ev = Analysed f \<or> (\<exists>p. ev = Asked f p)"
    using Cons.IH by blast
  then show ?case
  proof cases
    case 1
    then show ?thesis using review_file_events[of ev rv cfg e g st] by auto
  next
    case 2
    then show ?thesis by auto
  qed
qed

lemma review_files_events:
  "ev \<in> set (snd (review_files rv cfg e files)) \<Longrightarrow>
     \<exists>f \<in> set files. ev = Fetched f \<or> ev = Analysed f \<or> (\<exists>p. ev = Asked f p)"
  unfolding review_files_def using foldl_review_events[of ev rv cfg e "(no_report, [])" files] by simp

lemma getPRDiff_not_removed: "f \<in> set (getPRDiff rv e) \<Longrightarrow> status f \<noteq> js ''removed''"
  by (auto simp: getPRDiff_def split: option.splits)

lemma reviewPR_events:
  "ev \<in> set (events (reviewPR rv cfg e)) \<Longrightarrow>
     (\<exists>c. ev = Posted c) \<or>
     (\<exists>f \<in> set (getPRDiff rv e). ev = Fetched f \<or> ev = Analysed f \<or> (\<exists>p. ev = Asked f p))"
proof -
  assume a: "ev \<in> set (events (reviewPR rv cfg e))"
  obtain rep tr where r: "review_files rv cfg e (slice 0 (cap rv) (getPRDiff rv e)) = (rep, tr)"
    by (cases "review_files rv cfg e (slice 0 (cap rv) (getPRDiff rv e))")
  from a r have "(\<exists>c. ev = Posted c) \<or> ev \<in> set tr"
    by (auto simp: reviewPR_def Let_def split: if_splits)
  then show ?thesis
  proof
    assume "\<exists>c. ev = Posted c" then show ?thesis by blast
  next
    assume "ev \<in> set tr"
    with r have "ev \<in> set (snd (review_files rv cfg e (slice 0 (cap rv) (getPRDiff rv e))))" by simp
    then obtain f where "f \<in> set (slice 0 (cap rv) (getPRDiff rv e))"
      "ev = Fetched f \<or> ev = Analysed f \<or> (\<exists>p. ev = Asked f p)"
      using review_files_events by blast
    moreover have "set (slice 0 (cap rv) (getPRDiff rv e)) \<subseteq> set (getPRDiff rv e)"
      by (simp add: slice_def set_take_subset)
    ultimately show ?thesis by blast
  qed
qed

lemma review_file_fetch_fails:
  "getContent e (filename f) = None \<Longrightarrow> review_file rv cfg e f (rep, tr) = (rep, tr @ [Fetched f])"
  by (simp add: review_file_def)

lemma review_file_fst:
  "fst (review_file rv cfg e f (rep, tr)) = fst (review_file rv cfg e f (rep, tr'))"
  by (auto simp: review_file_def Let_def split: option.splits sum.splits prod.splits)

lemma foldl_review_fst:
  "fst st = fst st' \<Longrightarrow>
   fst (foldl (\<lambda>st f. review_file rv cfg e f st) st files) =
   fst (foldl (\<lambda>st f. review_file rv cfg e f st) st' files)"
proof (induction files arbitrary: st st')
  case Nil
  then show ?case by simp
next
  case (Cons g files)
  from Cons.prems obtain rep tr tr' where st: "st = (rep, tr)" "st' = (rep, tr')"
    by (cases st; cases st') auto
  have "fst (review_file rv cfg e g st) = fst (review_file rv cfg e g st')"
    unfolding st by (rule review_file_fst)
  then show ?case unfolding foldl_Cons by (rule Cons.IH)
qed

lemma review_files_skip_failed:
  assumes "getContent e (filename f) = None"
  shows "fst (review_files rv cfg e (xs @ f # ys)) = fst (review_files rv cfg e (xs @ ys))"
proof -
  let ?step = "\<lambda>st f. review_file rv cfg e f st"
  obtain rep tr where st: "foldl ?step (no_report, []) xs = (rep, tr)"
    by (cases "foldl ?step (no_report, []) xs")
  have "fst (foldl ?step (rep, tr @ [Fetched f]) ys) = fst (foldl ?step (rep, tr) ys)"
    by (rule foldl_review_fst) simp
  with st assms show ?thesis by (simp add: review_files_def review_file_fetch_fails)
qed

lemma review_file_snd:
  "\<exists>more. snd (review_file rv cfg e f (rep, tr)) = tr @ Fetched f # more"
  by (auto simp: review_file_def Let_def split: option.splits sum.splits prod.splits)

lemma foldl_review_keeps:
  "ev \<in> set (snd st) \<Longrightarrow> ev \<in> set (snd (foldl (\<lambda>st f. review_file rv cfg e f st) st files))"
proof (induction files arbitrary: st)
  case Nil
  then show ?case by simp
next
  case (Cons g files)
  obtain rep tr where st: "st = (rep, tr)" by (cases st)
  obtain more where "snd (review_file rv cfg e g (rep, tr)) = tr @ Fetched g # more"
    using review_file_snd by blast
  with Cons.prems st have "ev \<in> set (snd (review_file rv cfg e g st))" by simp
  then show ?case using Cons.IH by simp
qed

lemma foldl_review_fetches:
  "g \<in> set files \<Longrightarrow> Fetched g \<in> set (snd (foldl (\<lambda>st f. review_file rv cfg e f st) st files))"
proof (induction files arbitrary: st)
  case Nil
  then show ?case by simp
next
  case (Cons h files)
  obtain rep tr where st: "st = (rep, tr)" by (cases st)
  show ?case
  proof (cases "g = h")
    case True
    obtain more where "snd (review_file rv cfg e h (rep, tr)) = tr @ Fetched h # more"
      using review_file_snd by blast
    then have "Fetched g \<in> set (snd (review_file rv cfg e h st))" using True st by simp
    then show ?thesis using foldl_review_keeps by simp
  next
    case False
    with Cons.prems have "g \<in> set files" by simp
    then show ?thesis using Cons.IH by simp
  qed
qed

lemma review_files_fetches:
  "g \<in> set files \<Longrightarrow> Fetched g \<in> set (snd (review_files rv cfg e files))"
  by (simp add: review_files_def foldl_review_fetches)

lemma reviewPR_no_listing: "listFiles e = None \<Longrightarrow> reviewPR rv cfg e = \<lparr>exitCode = 0, events = []\<rparr>"
  by (simp add: reviewPR_def getPRDiff_def Let_def)

lemma reviewPR_no_files:
  assumes "listFiles e = Some files" "\<forall>f \<in> set files. \<not> accepts rv (filename f)"
  shows "reviewPR rv cfg e = \<lparr>exitCode = 0, events = []\<rparr>"
proof -
  from assms have "getPRDiff rv e = []" by (simp add: getPRDiff_def filter_empty_conv)
  then show ?thesis by (simp add: reviewPR_def Let_def)
qed

lemma reviewPR_posts:
  assumes "PR_NUMBER cfg = Some n" "n \<noteq> 0" "getPRDiff rv e \<noteq> []"
  shows "\<exists>tr. events (reviewPR rv cfg e) = tr @ [Posted (render rv (aggregate rv cfg e))]"
  using assms by (auto simp: reviewPR_def aggregate_def reviewed_def Let_def split: prod.splits)

lemma review_file_ai:
  assumes "getContent e (filename f) = Some content"
    "analyzeCode rv content (filename f) = Inr (critical, suggestions)"
    "truthy (GROQ_API_KEY cfg)" "patch f = Some p" "50 < length p"
  shows "aiReviews (fst (review_file rv cfg e f (rep, tr))) =
         aiReviews rep @
         (case callGroqAI cfg e (prompt_of rv (filename f) (slice 0 (preview rv) p)) of
            None \<Rightarrow> [] | Some r \<Rightarrow> push_if (\<not> no_findings rv r) (filename f, r))"
  using assms by (auto simp: review_file_def Let_def)

lemma callGroqAI_failed: "request_failed (completion e [] prompt) \<Longrightarrow> callGroqAI cfg e prompt = None"
  by (auto simp: callGroqAI_def request_failed_def split: ai_response.splits payload.splits)

lemma review_file_suggestions:
  "allSuggestions (fst (review_file rv cfg e f st)) = allSuggestions (fst st) @ suggestions_of rv e f"
  by (cases st)
     (auto simp: review_file_def suggestions_of_def Let_def split: option.splits sum.splits prod.splits)

lemma review_file_failed_ai:
  assumes "request_failed (completion e [] (ai_prompt rv f))"
  shows "aiReviews (fst (review_file rv cfg e f (rep, tr))) = aiReviews rep"
proof (cases "patch f")
  case None
  then show ?thesis
    by (auto simp: review_file_def Let_def split: option.splits sum.splits prod.splits)
next
  case (Some p)
  with assms have "callGroqAI cfg e (prompt_of rv (filename f) (slice 0 (preview rv) p)) = None"
    by (simp add: ai_prompt_def callGroqAI_failed)
  with Some show ?thesis
    by (auto simp: review_file_def Let_def split: option.splits sum.splits prod.splits)
qed

lemma review_file_asks:
  assumes "getContent e (filename f) = Some content"
    "analyzeCode rv content (filename f) = Inr r"
    "truthy (GROQ_API_KEY cfg)" "patch f = Some p" "50 < length p"
  shows "snd (review_file rv cfg e f (rep, tr)) = tr @ [Fetched f, Analysed f, Asked f (ai_prompt rv f)]"
  using assms by (cases r) (auto simp: review_file_def ai_prompt_def Let_def)


lemma includes_cursors:
  "list_ex (\<lambda>q. ends (Lit w) q \<noteq> []) (cursors p s) = includes_js s w"
  by (induction s arbitrary: p) auto

lemma rx_test_Lit: "rx_test (Lit w) s = includes_js s w"
  by (simp add: rx_test_def includes_cursors)

lemma includes_ci_cursors:
  "list_ex (\<lambda>q. ends (LitI w) q \<noteq> []) (cursors p s) = includes_js (map to_upper s) (map to_upper w)"
proof (induction s arbitrary: p)
  case Nil
  then show ?case by simp
next
  case (Cons a s)
  have "take (length w) (to_upper a # map to_upper s) = map to_upper (take (length w) (a # s))"
    by (subst list.map(2)[symmetric]) (rule take_map)
  with Cons show ?case by simp
qed

lemma rx_test_LitI: "rx_test (LitI w) s = includes_js (map to_upper s) (map to_upper w)"
  by (simp add: rx_test_def includes_ci_cursors)

section \<open>Lemmas: the dispatchers and the comment handlers\<close>

lemma run_one_skip: "m name = None \<Longrightarrow> run_one m spawn r name = r"
  by (simp add: run_one_def runScript_def)

lemma foldl_run_filter:
  "foldl (run_one m spawn) r0 toRun = foldl (run_one m spawn) r0 (filter (\<lambda>n. m n \<noteq> None) toRun)"
  by (induction toRun arbitrary: r0) (simp_all add: run_one_skip)

lemma run_all_filter: "run_all m spawn toRun = run_all m spawn (filter (\<lambda>n. m n \<noteq> None) toRun)"
  unfolding run_all_def by (rule foldl_run_filter)

lemma lookup_unknown:
  "name \<noteq> js ''react'' \<Longrightarrow> name \<noteq> js ''laravel'' \<Longrightarrow> name \<notin> set prototype_names \<Longrightarrow> lookup a b name = None"
  by (simp add: lookup_def)

lemma runScript_unknown: "m name = None \<Longrightarrow> runScript m spawn name = (0, [])"
  by (simp add: runScript_def)





lemma auto_review:
  assumes "js ''auto'' \<in> set (parseLanguages (languages_or_auto LANGUAGES))"
  shows "review_toRun LANGUAGES ev =
           (case ev of
              Payload (Some n) \<Rightarrow> if n = 0 then [js ''react''] else [js ''react'', js ''laravel'']
            | _ \<Rightarrow> [js ''react''])"
  using assms by (auto simp: review_toRun_def detectLanguagesFromPR_def Let_def split: github_event.splits option.splits)

lemma auto_comment:
  assumes "js ''auto'' \<in> set (parseLanguages (languages_or_auto LANGUAGES))"
  shows "comment_toRun LANGUAGES = [js ''react'', js ''laravel'']"
  using assms by (simp add: comment_toRun_def Let_def)

lemma posted_append: "posted (xs @ ys) = posted xs @ posted ys"
  by (simp add: posted_def)

lemma posted_asked: "posted (asked h cfg q c) = []"
  by (simp add: posted_def asked_def)

lemma posted_Posted: "posted [Posted x] = [x]"
  by (simp add: posted_def)

lemma react_posts_one: "length (posted (events (react_handleComment cfg e))) = 1"
  by (simp add: react_handleComment_def Let_def posted_append posted_asked posted_Posted)

lemma laravel_posts_one: "length (posted (events (laravel_handleComment cfg e))) = 1"
  by (simp add: laravel_handleComment_def Let_def posted_append posted_asked posted_Posted)

lemma swift_posts_one: "length (posted (events (swift_handleComment cfg e))) = 1"
  by (simp add: swift_handleComment_def Let_def posted_append posted_asked posted_Posted)

lemma posted_run_one:
  "length (posted (events (run_one comment_scriptMap (comment_children cfg e) r name))) =
   length (posted (events r)) + (if name = js ''react'' \<or> name = js ''laravel'' then 1 else 0)"
  by (auto simp: run_one_def runScript_def comment_scriptMap_def lookup_def comment_children_def
        posted_append react_posts_one laravel_posts_one js_def)

lemma posted_foldl:
  "length (posted (events (foldl (run_one comment_scriptMap (comment_children cfg e)) r toRun))) =
   length (posted (events r)) + length (filter (\<lambda>n. n = js ''react'' \<or> n = js ''laravel'') toRun)"
proof (induction toRun arbitrary: r)
  case Nil
  then show ?case by simp
next
  case (Cons n toRun)
  have "length (posted (events (foldl (run_one comment_scriptMap (comment_children cfg e))
           (run_one comment_scriptMap (comment_children cfg e) r n) toRun))) =
        length (posted (events (run_one comment_scriptMap (comment_children cfg e) r n))) +
        length (filter (\<lambda>n. n = js ''react'' \<or> n = js ''laravel'') toRun)"
    by (rule Cons.IH)
  then show ?case by (simp add: posted_run_one)
qed

lemma posted_comment_dispatcher:
  "length (posted (events (comment_dispatcher (comment_children cfg e) LANGUAGES))) =
   length (filter (\<lambda>n. n = js ''react'' \<or> n = js ''laravel'') (comment_toRun LANGUAGES))"
proof -
  have "posted (events \<lparr>exitCode = 0, events = []\<rparr>) = []" by (simp add: posted_def)
  with posted_foldl[of cfg e "\<lparr>exitCode = 0, events = []\<rparr>" "comment_toRun LANGUAGES"]
  show ?thesis by (simp add: comment_dispatcher_def run_all_def)
qed

lemma askAI_fallback:
  assumes "\<not> truthy (GROQ_API_KEY cfg) \<or> (\<forall>sys. no_answer (completion e sys q))"
  shows "askAI chk h cfg e q ctx \<in> set fallbacks"
proof (cases "truthy (GROQ_API_KEY cfg)")
  case False
  then show ?thesis by (simp add: askAI_def fallbacks_def)
next
  case True
  with assms have "no_answer (completion e (if ctx \<noteq> [] then h @ ctx else []) q)" by blast
  with True show ?thesis
    by (auto simp: askAI_def fallbacks_def no_answer_def split: ai_response.splits payload.splits)
qed

section \<open>The claims\<close>

text \<open>
  C9. For every content string and every file path, the rules of each stack return
  normally and never throw. In the React rules the capture of \<open>let\s+(\w+)\<close> is read
  only on a line that \<open>^\s*let\s+\w+\s*=\<close> matches, where \<open>match\<close> is not \<open>null\<close>;
  the captured name is made of word characters, so the \<open>RegExp\<close> built from it is well
  formed; and \<open>split\<close> never returns an empty array, so \<open>pop\<close> returns a string. The
  Laravel and Swift rules have no operation that can throw.
\<close>

theorem rules_never_throw:
  "(\<exists>r. analyzeCode react content name = Inr r) \<and>
   (\<exists>r. analyzeCode laravel content name = Inr r) \<and>
   (\<exists>r. analyzeCode swift content name = Inr r)"
  using react_analyzeCode_total[of content name] by (simp add: react_def laravel_def swift_def)

theorem rules_never_throw_witness:
  "(\<exists>r. analyzeCode react (js ''let x = 1'') (js ''src/App.jsx'') = Inr r) \<and>
   (\<exists>r. analyzeCode laravel (js ''let x = 1'') (js ''src/App.jsx'') = Inr r) \<and>
   (\<exists>r. analyzeCode swift (js ''let x = 1'') (js ''src/App.jsx'') = Inr r)"
  by (rule rules_never_throw)




text \<open>
  C4. For every file path that the exclusion test of a stack's rules matches (vendor,
  build, generated and test paths) and every content, the rules return no critical issue
  and no suggestion.
\<close>

theorem excluded_paths_yield_nothing:
  "(laravel_excluded name \<longrightarrow> analyzeCode laravel content name = Inr ([], [])) \<and>
   (react_excluded name \<longrightarrow> analyzeCode react content name = Inr ([], [])) \<and>
   (swift_excluded name \<longrightarrow> analyzeCode swift content name = Inr ([], []))"
  by (simp add: laravel_def react_def swift_def laravel_analyzeCode_def react_analyzeCode_def
        swift_analyzeCode_def)

theorem excluded_paths_yield_nothing_witness:
  "laravel_excluded (js ''vendor/a.php'') \<and>
   analyzeCode laravel (js ''dd($x);'') (js ''vendor/a.php'') = Inr ([], []) \<and>
   react_excluded (js ''src/App.test.js'') \<and>
   analyzeCode react (js ''eval(x)'') (js ''src/App.test.js'') = Inr ([], []) \<and>
   swift_excluded (js ''Pods/A.swift'') \<and>
   analyzeCode swift (js ''try! f()'') (js ''Pods/A.swift'') = Inr ([], [])"
proof -
  have l: "laravel_excluded (js ''vendor/a.php'')" by code_simp
  have r: "react_excluded (js ''src/App.test.js'')" by code_simp
  have s: "swift_excluded (js ''Pods/A.swift'')" by code_simp
  from l r s
    excluded_paths_yield_nothing[of "js ''vendor/a.php''" "js ''dd($x);''"]
    excluded_paths_yield_nothing[of "js ''src/App.test.js''" "js ''eval(x)''"]
    excluded_paths_yield_nothing[of "js ''Pods/A.swift''" "js ''try! f()''"]
  show ?thesis by blast
qed


text \<open>
  C10. Every listed file whose change status is \<open>removed\<close> is left out of the review:
  its content is never fetched, it is never passed to the rules and no AI request is
  made for it.
\<close>

theorem removed_files_not_reviewed:
  assumes "status f = js ''removed''"
  shows "Fetched f \<notin> set (events (reviewPR rv cfg e)) \<and>
         Analysed f \<notin> set (events (reviewPR rv cfg e)) \<and>
         (\<forall>p. Asked f p \<notin> set (events (reviewPR rv cfg e)))"
  using assms reviewPR_events[of _ rv cfg e] getPRDiff_not_removed[of _ rv e] by fastforce

theorem removed_files_not_reviewed_witness:
  "status removed_file = js ''removed'' \<and>
   listFiles removal_env = Some [removed_file, php_file] \<and>
   Fetched removed_file \<notin> set (events (reviewPR laravel sample_cfg removal_env)) \<and>
   Analysed removed_file \<notin> set (events (reviewPR laravel sample_cfg removal_env)) \<and>
   (\<forall>p. Asked removed_file p \<notin> set (events (reviewPR laravel sample_cfg removal_env)))"
proof -
  have s: "status removed_file = js ''removed''" by (simp add: removed_file_def)
  have l: "listFiles removal_env = Some [removed_file, php_file]" by (simp add: removal_env_def)
  from s l removed_files_not_reviewed[OF s, of laravel sample_cfg removal_env] show ?thesis by blast
qed

text \<open>
  C6, as the code has it. A reply of the completion service is included as a narrative
  in the report if and only if it is not empty and the reviewer's own test for a reply
  without findings fails: for a file whose content was fetched and analysed and for
  which the AI request was made (an API key and a patch of more than 50 code units),
  the loop adds the reply to \<open>aiReviews\<close> exactly then. That test is: the reply
  includes \<open>None\<close> or \<open>No issues\<close>, in this letter case (Laravel and React); the
  reply includes \<open>none\<close> in any letter case (Swift).
\<close>

theorem ai_reply_included_iff:
  "(getContent e (filename f) = Some content \<and>
    analyzeCode rv content (filename f) = Inr (critical, suggestions) \<and>
    truthy (GROQ_API_KEY cfg) \<and> patch f = Some p \<and> 50 < length p \<and>
    completion e [] (prompt_of rv (filename f) (slice 0 (preview rv) p)) = Response True (Content r) \<longrightarrow>
    aiReviews (fst (review_file rv cfg e f (rep, tr))) =
      aiReviews rep @ (if r \<noteq> [] \<and> \<not> no_findings rv r then [(filename f, r)] else [])) \<and>
   (no_findings laravel r \<longleftrightarrow> includes_js r (js ''None'') \<or> includes_js r (js ''No issues'')) \<and>
   (no_findings react r \<longleftrightarrow> includes_js r (js ''None'') \<or> includes_js r (js ''No issues'')) \<and>
   (no_findings swift r \<longleftrightarrow> includes_js (map to_upper r) (js ''NONE''))"
proof (intro conjI impI)
  assume h: "getContent e (filename f) = Some content \<and>
    analyzeCode rv content (filename f) = Inr (critical, suggestions) \<and>
    truthy (GROQ_API_KEY cfg) \<and> patch f = Some p \<and> 50 < length p \<and>
    completion e [] (prompt_of rv (filename f) (slice 0 (preview rv) p)) = Response True (Content r)"
  then have "callGroqAI cfg e (prompt_of rv (filename f) (slice 0 (preview rv) p)) =
             (if r = [] then None else Some r)"
    by (simp add: callGroqAI_def)
  with h review_file_ai[of e f content rv critical suggestions cfg p rep tr]
  show "aiReviews (fst (review_file rv cfg e f (rep, tr))) =
      aiReviews rep @ (if r \<noteq> [] \<and> \<not> no_findings rv r then [(filename f, r)] else [])"
    by (simp add: push_if_def)
next
  show "no_findings laravel r \<longleftrightarrow> includes_js r (js ''None'') \<or> includes_js r (js ''No issues'')"
    by (simp add: laravel_def none_or_no_issues_def)
  show "no_findings react r \<longleftrightarrow> includes_js r (js ''None'') \<or> includes_js r (js ''No issues'')"
    by (simp add: react_def none_or_no_issues_def)
  have "map to_upper (js ''None'') = js ''NONE''" by code_simp
  then show "no_findings swift r \<longleftrightarrow> includes_js (map to_upper r) (js ''NONE'')"
    by (simp add: swift_def rx_test_LitI)
qed

theorem ai_reply_included_iff_witness:
  "aiReviews (fst (review_file laravel sample_cfg ai_env patched_file (no_report, []))) =
     [(js ''app/A.php'', js ''CRITICAL: - Line 1: dd() left in'')] \<and>
   aiReviews (fst (review_file laravel sample_cfg none_env patched_file (no_report, []))) = []"
proof -
  let ?r = "js ''CRITICAL: - Line 1: dd() left in''"
  let ?n = "(js ''CRITICAL: None'' @ [10] @ js ''SUGGESTIONS: None'')"
  let ?a = "laravel_analyzeCode (js ''dd($x);'') (js ''app/A.php'')"
  have h: "getContent ai_env (filename patched_file) = Some (js ''dd($x);'') \<and>
    analyzeCode laravel (js ''dd($x);'') (filename patched_file) = Inr (fst ?a, snd ?a) \<and>
    truthy (GROQ_API_KEY sample_cfg) \<and> patch patched_file = Some (replicate 51 43) \<and>
    50 < length (replicate 51 (43::int)) \<and>
    completion ai_env [] (prompt_of laravel (filename patched_file) (slice 0 (preview laravel) (replicate 51 43))) =
      Response True (Content ?r)"
    by (simp add: ai_env_def debug_env_def patched_file_def php_file_def laravel_def sample_cfg_def
          truthy_def js_def)
  have h': "getContent none_env (filename patched_file) = Some (js ''dd($x);'') \<and>
    analyzeCode laravel (js ''dd($x);'') (filename patched_file) = Inr (fst ?a, snd ?a) \<and>
    truthy (GROQ_API_KEY sample_cfg) \<and> patch patched_file = Some (replicate 51 43) \<and>
    50 < length (replicate 51 (43::int)) \<and>
    completion none_env [] (prompt_of laravel (filename patched_file) (slice 0 (preview laravel) (replicate 51 43))) =
      Response True (Content ?n)"
    by (simp add: none_env_def debug_env_def patched_file_def php_file_def laravel_def sample_cfg_def
          truthy_def js_def)
  have n: "\<not> no_findings laravel ?r" by code_simp
  have n': "no_findings laravel ?n" by code_simp
  have ne: "?r \<noteq> []" by (simp add: js_def)
  have f: "filename patched_file = js ''app/A.php''" by (simp add: patched_file_def php_file_def)
  from ai_reply_included_iff[of ai_env patched_file "js ''dd($x);''" laravel "fst ?a" "snd ?a"
      sample_cfg "replicate 51 43" ?r no_report "[]"] h n ne f
  have a: "aiReviews (fst (review_file laravel sample_cfg ai_env patched_file (no_report, []))) =
     [(js ''app/A.php'', ?r)]"
    by (simp add: no_report_def)
  from ai_reply_included_iff[of none_env patched_file "js ''dd($x);''" laravel "fst ?a" "snd ?a"
      sample_cfg "replicate 51 43" ?n no_report "[]"] h' n'
  have b: "aiReviews (fst (review_file laravel sample_cfg none_env patched_file (no_report, []))) = []"
    by (simp add: no_report_def)
  from a b show ?thesis by simp
qed

text \<open>
  C6 as stated fails: the reply \<open>no issues found\<close> is not empty and says that nothing
  was found with the phrase \<open>no issues\<close>, and each of the three reviewers includes it
  in its report as a narrative of the file.
\<close>

theorem lowercase_no_issues_is_published:
  "includes_js (js ''no issues found'') (js ''no issues'') \<and>
   aiReviews (aggregate laravel sample_cfg lowercase_env) = [(js ''app/A.php'', js ''no issues found'')] \<and>
   aiReviews (aggregate react sample_cfg lowercase_env) = [(js ''src/App.jsx'', js ''no issues found'')] \<and>
   aiReviews (aggregate swift sample_cfg lowercase_env) =
     [(js ''Sources/App.swift'', js ''no issues found'')]"
  by code_simp

text \<open>
  C5, as the code has it. A failure to list the changed files is caught and counts as
  an empty list: the run posts no report and ends with exit code 0. An error on one file
  stays with that file: a file whose content cannot be fetched adds nothing to the
  report, and the report is the one of the run without that file. The AI request of a
  file is made after its rules have run; when the request fails (\<open>fetch\<close> throws, the
  response is not \<open>ok\<close>, its body cannot be read or has no \<open>choices\<close>),
  \<open>callGroqAI\<close> returns \<open>null\<close>, no narrative is added, and the critical issues
  and the suggestions of the file are kept. The loop goes over every file it was given
  whatever fails, and the run ends by posting the comment of the report.
\<close>

theorem listing_failure_is_quiet_file_errors_are_local:
  "(listFiles e = None \<longrightarrow> reviewPR rv cfg e = \<lparr>exitCode = 0, events = []\<rparr>) \<and>
   (getContent e (filename f) = None \<longrightarrow>
      fst (review_file rv cfg e f (rep, tr)) = rep \<and>
      fst (review_files rv cfg e (xs @ f # ys)) = fst (review_files rv cfg e (xs @ ys))) \<and>
   (getContent e (filename f) = Some content \<and> analyzeCode rv content (filename f) = Inr r \<and>
    truthy (GROQ_API_KEY cfg) \<and> patch f = Some p \<and> 50 < length p \<longrightarrow>
      snd (review_file rv cfg e f (rep, tr)) = tr @ [Fetched f, Analysed f, Asked f (ai_prompt rv f)]) \<and>
   (request_failed (completion e [] (ai_prompt rv f)) \<longrightarrow>
      callGroqAI cfg e (ai_prompt rv f) = None \<and>
      aiReviews (fst (review_file rv cfg e f (rep, tr))) = aiReviews rep \<and>
      allCritical (fst (review_file rv cfg e f (rep, tr))) = allCritical rep @ critical_of rv e f \<and>
      allSuggestions (fst (review_file rv cfg e f (rep, tr))) =
        allSuggestions rep @ suggestions_of rv e f) \<and>
   (\<forall>g \<in> set files. Fetched g \<in> set (snd (review_files rv cfg e files))) \<and>
   (PR_NUMBER cfg = Some n \<and> n \<noteq> 0 \<and> getPRDiff rv e \<noteq> [] \<longrightarrow>
      (\<exists>tr. events (reviewPR rv cfg e) = tr @ [Posted (render rv (aggregate rv cfg e))]))"
proof (intro conjI impI ballI)
  assume "listFiles e = None"
  then show "reviewPR rv cfg e = \<lparr>exitCode = 0, events = []\<rparr>" by (rule reviewPR_no_listing)
next
  assume "getContent e (filename f) = None"
  then show "fst (review_file rv cfg e f (rep, tr)) = rep"
    and "fst (review_files rv cfg e (xs @ f # ys)) = fst (review_files rv cfg e (xs @ ys))"
    by (simp_all add: review_file_fetch_fails review_files_skip_failed)
next
  assume "getContent e (filename f) = Some content \<and> analyzeCode rv content (filename f) = Inr r \<and>
    truthy (GROQ_API_KEY cfg) \<and> patch f = Some p \<and> 50 < length p"
  then show "snd (review_file rv cfg e f (rep, tr)) = tr @ [Fetched f, Analysed f, Asked f (ai_prompt rv f)]"
    using review_file_asks[of e f content rv r cfg p rep tr] by blast
next
  assume a: "request_failed (completion e [] (ai_prompt rv f))"
  then show "callGroqAI cfg e (ai_prompt rv f) = None" by (rule callGroqAI_failed)
  from a show "aiReviews (fst (review_file rv cfg e f (rep, tr))) = aiReviews rep"
    by (rule review_file_failed_ai)
  show "allCritical (fst (review_file rv cfg e f (rep, tr))) = allCritical rep @ critical_of rv e f"
    using review_file_critical[of rv cfg e f "(rep, tr)"] by simp
  show "allSuggestions (fst (review_file rv cfg e f (rep, tr))) =
        allSuggestions rep @ suggestions_of rv e f"
    using review_file_suggestions[of rv cfg e f "(rep, tr)"] by simp
next
  fix g assume "g \<in> set files"
  then show "Fetched g \<in> set (snd (review_files rv cfg e files))" by (rule review_files_fetches)
next
  assume "PR_NUMBER cfg = Some n \<and> n \<noteq> 0 \<and> getPRDiff rv e \<noteq> []"
  then show "\<exists>tr. events (reviewPR rv cfg e) = tr @ [Posted (render rv (aggregate rv cfg e))]"
    using reviewPR_posts[of cfg n rv e] by blast
qed

theorem listing_failure_is_quiet_file_errors_are_local_witness:
  "reviewPR laravel sample_cfg no_listing_env = \<lparr>exitCode = 0, events = []\<rparr> \<and>
   fst (review_file laravel sample_cfg lossy_env lost_file (no_report, [])) = no_report \<and>
   fst (review_files laravel sample_cfg lossy_env ([] @ lost_file # [php_file])) =
     fst (review_files laravel sample_cfg lossy_env ([] @ [php_file])) \<and>
   request_failed (completion failing_ai_env [] (ai_prompt laravel patched_file)) \<and>
   snd (review_file laravel sample_cfg failing_ai_env patched_file (no_report, [])) =
     [Fetched patched_file, Analysed patched_file, Asked patched_file (ai_prompt laravel patched_file)] \<and>
   callGroqAI sample_cfg failing_ai_env (ai_prompt laravel patched_file) = None \<and>
   aiReviews (fst (review_file laravel sample_cfg failing_ai_env patched_file (no_report, []))) = [] \<and>
   allCritical (fst (review_file laravel sample_cfg failing_ai_env patched_file (no_report, []))) =
     critical_of laravel failing_ai_env patched_file \<and>
   critical_of laravel failing_ai_env patched_file \<noteq> [] \<and>
   Fetched php_file \<in> set (snd (review_files laravel sample_cfg lossy_env [lost_file, php_file])) \<and>
   (\<exists>tr. events (reviewPR laravel sample_cfg failing_ai_env) =
           tr @ [Posted (render laravel (aggregate laravel sample_cfg failing_ai_env))])"
proof -
  let ?a = "laravel_analyzeCode (js ''dd($x);'') (js ''app/A.php'')"
  have a: "listFiles no_listing_env = None" by (simp add: no_listing_env_def)
  have b: "getContent lossy_env (filename lost_file) = None"
    by (simp add: lossy_env_def lost_file_def)
  have c: "request_failed (completion failing_ai_env [] (ai_prompt laravel patched_file))"
    by (simp add: failing_ai_env_def request_failed_def)
  have c': "getContent failing_ai_env (filename patched_file) = Some (js ''dd($x);'') \<and>
    analyzeCode laravel (js ''dd($x);'') (filename patched_file) = Inr ?a \<and>
    truthy (GROQ_API_KEY sample_cfg) \<and> patch patched_file = Some (replicate 51 43) \<and>
    50 < length (replicate 51 (43::int))"
    by (simp add: failing_ai_env_def debug_env_def patched_file_def php_file_def laravel_def
          sample_cfg_def truthy_def js_def)
  have k: "critical_of laravel failing_ai_env patched_file \<noteq> []" by code_simp
  have d: "php_file \<in> set [lost_file, php_file]" by simp
  have "getPRDiff laravel failing_ai_env = [patched_file]" by code_simp
  then have e: "PR_NUMBER sample_cfg = Some 7 \<and> (7::nat) \<noteq> 0 \<and> getPRDiff laravel failing_ai_env \<noteq> []"
    by (simp add: sample_cfg_def)
  note t = listing_failure_is_quiet_file_errors_are_local[where rv = laravel and cfg = sample_cfg
      and rep = no_report and tr = "[]" and xs = "[]" and n = 7]
  from a t[where e = no_listing_env]
  have 1: "reviewPR laravel sample_cfg no_listing_env = \<lparr>exitCode = 0, events = []\<rparr>" by blast
  from b d t[where e = lossy_env and f = lost_file and ys = "[php_file]" and files = "[lost_file, php_file]"]
  have 2: "fst (review_file laravel sample_cfg lossy_env lost_file (no_report, [])) = no_report \<and>
     fst (review_files laravel sample_cfg lossy_env ([] @ lost_file # [php_file])) =
       fst (review_files laravel sample_cfg lossy_env ([] @ [php_file])) \<and>
     Fetched php_file \<in> set (snd (review_files laravel sample_cfg lossy_env [lost_file, php_file]))"
    by blast
  from c c' e t[where e = failing_ai_env and f = patched_file and content = "js ''dd($x);''"
      and r = ?a and p = "replicate 51 43"]
  have 3: "snd (review_file laravel sample_cfg failing_ai_env patched_file (no_report, [])) =
       [] @ [Fetched patched_file, Analysed patched_file, Asked patched_file (ai_prompt laravel patched_file)] \<and>
     callGroqAI sample_cfg failing_ai_env (ai_prompt laravel patched_file) = None \<and>
     aiReviews (fst (review_file laravel sample_cfg failing_ai_env patched_file (no_report, []))) =
       aiReviews no_report \<and>
     allCritical (fst (review_file laravel sample_cfg failing_ai_env patched_file (no_report, []))) =
       allCritical no_report @ critical_of laravel failing_ai_env patched_file \<and>
     (\<exists>tr. events (reviewPR laravel sample_cfg failing_ai_env) =
           tr @ [Posted (render laravel (aggregate laravel sample_cfg failing_ai_env))])"
    by blast
  from 1 2 3 c k show ?thesis by (simp add: no_report_def)
qed

text \<open>
  C5 as stated fails: when the listing of the changed files fails, the Laravel reviewer
  ends with exit code 0, a passing outcome.
\<close>

theorem listing_failure_passes:
  "listFiles no_listing_env = None \<and> exitCode (reviewPR laravel sample_cfg no_listing_env) = 0"
  by (simp add: no_listing_env_def reviewPR_no_listing)

text \<open>
  C2, as the code has it. A requested name for which \<open>scriptMap\<close> has no entry is
  skipped: \<open>runScript\<close> starts nothing for it and returns 0, so the run is the run of
  the names that have an entry. Every name but \<open>react\<close>, \<open>laravel\<close> and the names
  inherited from \<open>Object.prototype\<close> is such a name, in both dispatchers.
\<close>

theorem names_without_script_are_skipped:
  "(scriptMap name = None \<longrightarrow> runScript scriptMap spawn name = (0, [])) \<and>
   (name \<noteq> js ''react'' \<and> name \<noteq> js ''laravel'' \<and> name \<notin> set prototype_names \<longrightarrow>
      review_scriptMap name = None \<and> comment_scriptMap name = None) \<and>
   run_all scriptMap spawn toRun = run_all scriptMap spawn (filter (\<lambda>n. scriptMap n \<noteq> None) toRun)"
  using run_all_filter[of scriptMap spawn toRun]
  by (simp add: runScript_unknown review_scriptMap_def comment_scriptMap_def lookup_unknown)

theorem names_without_script_are_skipped_witness:
  "review_scriptMap (js ''python'') = None \<and>
   runScript review_scriptMap failing_child (js ''python'') = (0, []) \<and>
   run_all review_scriptMap failing_child [js ''python'', js ''react''] =
     run_all review_scriptMap failing_child (filter (\<lambda>n. review_scriptMap n \<noteq> None) [js ''python'', js ''react''])"
proof -
  have u: "js ''python'' \<noteq> js ''react'' \<and> js ''python'' \<noteq> js ''laravel'' \<and>
           js ''python'' \<notin> set prototype_names"
    by code_simp
  note t = names_without_script_are_skipped[of review_scriptMap "js ''python''" failing_child
      "[js ''python'', js ''react'']"]
  from t have t1: "review_scriptMap (js ''python'') = None \<longrightarrow>
      runScript review_scriptMap failing_child (js ''python'') = (0, [])"
    by (rule conjunct1)
  from t have t2: "js ''python'' \<noteq> js ''react'' \<and> js ''python'' \<noteq> js ''laravel'' \<and>
      js ''python'' \<notin> set prototype_names \<longrightarrow>
      review_scriptMap (js ''python'') = None \<and> comment_scriptMap (js ''python'') = None"
    by (rule conjunct2[THEN conjunct1])
  from t have t3: "run_all review_scriptMap failing_child [js ''python'', js ''react''] =
     run_all review_scriptMap failing_child (filter (\<lambda>n. review_scriptMap n \<noteq> None) [js ''python'', js ''react''])"
    by (rule conjunct2[THEN conjunct2])
  from t2 u have n: "review_scriptMap (js ''python'') = None" by (rule mp[THEN conjunct1])
  from t1 n have z: "runScript review_scriptMap failing_child (js ''python'') = (0, [])" by (rule mp)
  from n z t3 show ?thesis by (intro conjI)
qed

text \<open>
  C2 as stated fails: with the explicit selection \<open>python\<close>, a name without a
  reviewer, the dispatcher ends with exit code 0 although every child process it could
  start would fail.
\<close>

theorem unknown_name_passes:
  "exitCode (dispatcher failing_child (Some (js ''python'')) (Payload (Some 7))) = 0"
  by code_simp

text \<open>
  C3, as the code has it. In auto mode the selection does not depend on the changed
  files: scripts/dispatcher.js selects \<open>react\<close> and \<open>laravel\<close> when the event has a
  pull-request number and the single \<open>react\<close> otherwise, and
  scripts/comment-dispatcher.js always selects \<open>react\<close> and \<open>laravel\<close>. The changed
  files are matched by each reviewer: one whose matcher accepts none of them reviews
  nothing, posts nothing and ends with exit code 0.
\<close>

theorem auto_mode_selection:
  "(js ''auto'' \<in> set (parseLanguages (languages_or_auto LANGUAGES)) \<longrightarrow>
      review_toRun LANGUAGES ev =
        (case ev of
           Payload (Some n) \<Rightarrow> if n = 0 then [js ''react''] else [js ''react'', js ''laravel'']
         | _ \<Rightarrow> [js ''react'']) \<and>
      comment_toRun LANGUAGES = [js ''react'', js ''laravel'']) \<and>
   (listFiles e = Some files \<and> (\<forall>f \<in> set files. \<not> accepts rv (filename f)) \<longrightarrow>
      reviewPR rv cfg e = \<lparr>exitCode = 0, events = []\<rparr>)"
  using auto_review[of LANGUAGES ev] auto_comment[of LANGUAGES] reviewPR_no_files[of e files rv cfg]
  by simp

theorem auto_mode_selection_witness:
  "js ''auto'' \<in> set (parseLanguages (languages_or_auto (Some (js '' Auto '')))) \<and>
   review_toRun (Some (js '' Auto '')) (Payload (Some 7)) = [js ''react'', js ''laravel''] \<and>
   comment_toRun (Some (js '' Auto '')) = [js ''react'', js ''laravel''] \<and>
   reviewPR laravel sample_cfg readme_env = \<lparr>exitCode = 0, events = []\<rparr>"
proof -
  have a: "js ''auto'' \<in> set (parseLanguages (languages_or_auto (Some (js '' Auto ''))))"
    by code_simp
  have l: "listFiles readme_env = Some [readme_file]" by (simp add: readme_env_def)
  have "\<not> accepts laravel (filename readme_file)" by code_simp
  then have n: "\<forall>f \<in> set [readme_file]. \<not> accepts laravel (filename f)" by simp
  from a l n auto_mode_selection[of "Some (js '' Auto '')" "Payload (Some 7)" readme_env "[readme_file]"
      laravel sample_cfg]
  show ?thesis by simp
qed

text \<open>
  C3 as stated fails: for a pull request that changes only \<open>README.md\<close>, no matcher
  accepts a file, so the specification selects the single default profile; the
  dispatcher in auto mode selects \<open>react\<close> and \<open>laravel\<close>.
\<close>

theorem auto_mode_ignores_changed_files:
  "spec_auto_select [js ''README.md''] = [js ''react''] \<and>
   review_toRun None (Payload (Some 7)) = [js ''react'', js ''laravel''] \<and>
   comment_toRun None = [js ''react'', js ''laravel'']"
  by code_simp

text \<open>
  C8, as the code has it. Each comment handler posts exactly one reply in a run, and
  when no answer can be had (no API key, or a completion endpoint that fails or returns
  nothing for the question) the reply of a question carries one of the fallback
  messages of \<open>askAI\<close>. The comment dispatcher starts one handler for every selected
  name that is \<open>react\<close> or \<open>laravel\<close>, so a triggering comment gets one reply for each
  such name: two in auto mode.
\<close>

theorem one_reply_per_handler:
  "length (posted (events (react_handleComment cfg e))) = 1 \<and>
   length (posted (events (laravel_handleComment cfg e))) = 1 \<and>
   length (posted (events (swift_handleComment cfg e))) = 1 \<and>
   (extractQuestion (COMMENT_BODY cfg) \<noteq> [] \<and>
    (\<not> truthy (GROQ_API_KEY cfg) \<or> (\<forall>sys. no_answer (completion e sys (extractQuestion (COMMENT_BODY cfg))))) \<longrightarrow>
      (\<exists>a \<in> set fallbacks. posted (events (react_handleComment cfg e)) = [react_reply a]) \<and>
      (\<exists>a \<in> set fallbacks. posted (events (laravel_handleComment cfg e)) = [laravel_reply a]) \<and>
      (\<exists>a \<in> set fallbacks. posted (events (swift_handleComment cfg e)) = [swift_reply a])) \<and>
   length (posted (events (comment_dispatcher (comment_children cfg e) LANGUAGES))) =
     length (filter (\<lambda>n. n = js ''react'' \<or> n = js ''laravel'') (comment_toRun LANGUAGES)) \<and>
   (js ''auto'' \<in> set (parseLanguages (languages_or_auto LANGUAGES)) \<longrightarrow>
      length (posted (events (comment_dispatcher (comment_children cfg e) LANGUAGES))) = 2)"
proof (intro conjI impI)
  show "length (posted (events (react_handleComment cfg e))) = 1" by (rule react_posts_one)
  show "length (posted (events (laravel_handleComment cfg e))) = 1" by (rule laravel_posts_one)
  show "length (posted (events (swift_handleComment cfg e))) = 1" by (rule swift_posts_one)
  show "length (posted (events (comment_dispatcher (comment_children cfg e) LANGUAGES))) =
     length (filter (\<lambda>n. n = js ''react'' \<or> n = js ''laravel'') (comment_toRun LANGUAGES))"
    by (rule posted_comment_dispatcher)
next
  assume "js ''auto'' \<in> set (parseLanguages (languages_or_auto LANGUAGES))"
  then have "comment_toRun LANGUAGES = [js ''react'', js ''laravel'']" by (rule auto_comment)
  then show "length (posted (events (comment_dispatcher (comment_children cfg e) LANGUAGES))) = 2"
    by (simp add: posted_comment_dispatcher)
next
  assume h: "extractQuestion (COMMENT_BODY cfg) \<noteq> [] \<and>
    (\<not> truthy (GROQ_API_KEY cfg) \<or> (\<forall>sys. no_answer (completion e sys (extractQuestion (COMMENT_BODY cfg)))))"
  then have fb: "\<And>chk hd ctx. askAI chk hd cfg e (extractQuestion (COMMENT_BODY cfg)) ctx \<in> set fallbacks"
    by (intro askAI_fallback) simp
  from h fb show "\<exists>a \<in> set fallbacks. posted (events (react_handleComment cfg e)) = [react_reply a]"
    by (simp add: react_handleComment_def Let_def posted_append posted_asked posted_Posted) blast?
  from h fb show "\<exists>a \<in> set fallbacks. posted (events (laravel_handleComment cfg e)) = [laravel_reply a]"
    by (simp add: laravel_handleComment_def Let_def posted_append posted_asked posted_Posted) blast?
  from h fb show "\<exists>a \<in> set fallbacks. posted (events (swift_handleComment cfg e)) = [swift_reply a]"
    by (simp add: swift_handleComment_def Let_def posted_append posted_asked posted_Posted) blast?
qed

theorem one_reply_per_handler_witness:
  "extractQuestion (COMMENT_BODY sample_cfg) = js ''why?'' \<and>
   length (posted (events (react_handleComment sample_cfg debug_env))) = 1 \<and>
   (\<exists>a \<in> set fallbacks. posted (events (react_handleComment sample_cfg debug_env)) = [react_reply a]) \<and>
   (\<exists>a \<in> set fallbacks. posted (events (laravel_handleComment sample_cfg debug_env)) = [laravel_reply a]) \<and>
   length (posted (events (comment_dispatcher (comment_children sample_cfg debug_env) None))) = 2"
proof -
  have q: "extractQuestion (COMMENT_BODY sample_cfg) = js ''why?''" by code_simp
  have n: "\<forall>sys. no_answer (completion debug_env sys (extractQuestion (COMMENT_BODY sample_cfg)))"
    by (simp add: debug_env_def no_answer_def)
  have a: "js ''auto'' \<in> set (parseLanguages (languages_or_auto None))" by code_simp
  have ne: "js ''why?'' \<noteq> []" by (simp add: js_def)
  from q n a ne one_reply_per_handler[of sample_cfg debug_env None] show ?thesis by simp
qed

text \<open>
  C8 as stated fails: in auto mode one triggering comment gets two replies, one of each
  handler; and with the explicit selection \<open>swift\<close>, for which the comment dispatcher
  has no handler, it gets none.
\<close>

theorem auto_mode_posts_two_replies:
  "length (posted (events (comment_dispatcher (comment_children sample_cfg debug_env) None))) = 2 \<and>
   posted (events (comment_dispatcher (comment_children sample_cfg debug_env) (Some (js ''swift'')))) = []"
  by code_simp

text \<open>
  C7 fails in the Laravel reviewer, which the code shows to be a defect: the loop
  collects the suggestions of the rules in \<open>allSuggestions\<close> as its siblings do, but the
  comment is built from \<open>allCritical\<close> and \<open>aiReviews\<close> only. For a controller whose
  only finding is the suggestion to use a Form Request, the posted comment says that no
  issue was detected and the suggestion appears nowhere in it.
\<close>

theorem laravel_comment_omits_suggestions:
  "laravel_render (rep\<lparr>allSuggestions := s\<rparr>) = laravel_render rep \<and>
   allSuggestions (aggregate laravel sample_cfg controller_env) =
     [(js ''app/UserController.php'',
       [sugg 2 ([0x2705] @ js '' Validation'')
          (js ''Consider using Form Request classes for complex validations to keep controllers thin'') None])] \<and>
   posted (events (reviewPR laravel sample_cfg controller_env)) =
     [(js ''## '' @ [0xD83E, 0xDD16] @ js '' Laravel Security Review'' @ [10, 10, 0x2705] @
      js '' **No security or critical issues detected**'' @ [10, 10] @
      js ''Code review passed automated checks.'' @ [10, 10, 10] @ js ''---'' @ [10] @ js ''*'' @
      [0xD83D, 0xDCAC] @ js '' Ask questions with '' @ [96] @
      js ''@ai-reviewer [your question]'' @ [96] @ js '' in comments*'')]"
proof (intro conjI)
  show "laravel_render (rep\<lparr>allSuggestions := s\<rparr>) = laravel_render rep"
    by (simp add: laravel_render_def totalCritical_def)
  show "allSuggestions (aggregate laravel sample_cfg controller_env) =
     [(js ''app/UserController.php'',
       [sugg 2 ([0x2705] @ js '' Validation'')
          (js ''Consider using Form Request classes for complex validations to keep controllers thin'') None])]"
    by code_simp
  show "posted (events (reviewPR laravel sample_cfg controller_env)) =
     [(js ''## '' @ [0xD83E, 0xDD16] @ js '' Laravel Security Review'' @ [10, 10, 0x2705] @
      js '' **No security or critical issues detected**'' @ [10, 10] @
      js ''Code review passed automated checks.'' @ [10, 10, 10] @ js ''---'' @ [10] @ js ''*'' @
      [0xD83D, 0xDCAC] @ js '' Ask questions with '' @ [96] @
      js ''@ai-reviewer [your question]'' @ [96] @ js '' in comments*'')]"
    by code_simp
qed

end
